theory Spec2Isabelle
  imports Complex_Main "HOL-Library.Multiset"
begin

section \<open>Data model (types/hrm)\<close>

text \<open>
  The aggregate document of the HRM system. Conventions of the embedding:
  \<^item> a JavaScript \<open>number\<close> is the rational value of a finite double (\<open>rat\<close>). Sums,
    differences, products and quotients of hours, rates and pay are rounded to the
    nearest double as the code's are (\<open>dadd\<close>, \<open>dsub\<close>, \<open>dmul\<close>, \<open>ddiv\<close> below).
    Leave counters are small whole numbers, on which double arithmetic is exact;
    infinities, NaN and negative zero do not occur;
  \<^item> an ISO timestamp string written by \<open>new Date().toISOString()\<close> is represented by
    its epoch milliseconds (\<open>int\<close>), and \<open>null\<close> by \<open>None\<close>; every call of
    \<open>Date.now()\<close> / \<open>new Date()\<close> inside one handler reads the same \<open>now\<close>;
  \<^item> calendar dates (\<open>YYYY-MM-DD\<close>), months (\<open>YYYY-MM\<close>), ids and names stay strings, of
    which only equality, emptiness and prefixes are read; text typed by a user that the
    code trims (task descriptions, reasons, comments) is a list of UTF-16 code units
    (\<open>jstext\<close>), so that every white-space character of JavaScript can occur in it;
  \<^item> record fields that occur in several interfaces carry a prefix
    (\<open>tl_id\<close>, \<open>task_id\<close>, ...), because record fields are global constants;
  \<^item> profile fields of an employee that no handler reads (password, phone, position,
    department, ...) and the free-text \<open>changes\<close> column of the audit log are left out.
\<close>

type_synonym jstext = "nat list"

text \<open>The code units of a string of ASCII characters.\<close>

definition utf16 :: "string \<Rightarrow> jstext" where
  "utf16 s = map of_char s"

datatype UserRole = RoleEmployee | RoleManager | RoleAdmin

record Employee =
  emp_id :: string
  emp_name :: string
  email :: string
  managerId :: "string option"
  monthlyHourTarget :: rat
  hourlyRate :: rat
  role :: UserRole
  compLeavesEarned :: rat
  compLeavesUsed :: rat

record BreakLog =
  breakIn :: int
  breakOut :: "int option"

datatype TimeLogStatus = CheckedIn | CheckedOut | Incomplete

record TimeLog =
  tl_id :: string
  tl_employeeId :: string
  tl_date :: string
  checkIn :: "int option"
  checkOut :: "int option"
  breaks :: "BreakLog list"
  totalHours :: rat
  tl_status :: TimeLogStatus

datatype TaskStatus = TaskPending | TaskApproved | TaskCommented

record Task =
  task_id :: string
  task_employeeId :: string
  task_date :: string
  description :: jstext
  hoursSpent :: rat
  task_status :: TaskStatus
  managerComment :: "jstext option"
  task_reviewedBy :: "string option"
  task_reviewedAt :: "int option"

datatype LeaveStatus = LeavePending | LeaveApproved | LeaveRejected

record LeaveRequest =
  lr_id :: string
  lr_employeeId :: string
  startDate :: string
  endDate :: string
  reason :: jstext
  lr_status :: LeaveStatus
  requestedAt :: int
  lr_reviewedBy :: "string option"
  lr_reviewedAt :: "int option"
  reviewComment :: "jstext option"

datatype PayrollStatus = PayPending | PayApproved | PayPaid

record PayrollEntry =
  pe_id :: string
  pe_employeeId :: string
  month :: string
  regularHours :: rat
  overtimeHours :: rat
  regularPay :: rat
  overtimePay :: rat
  totalPay :: rat
  pe_status :: PayrollStatus
  processedBy :: "string option"
  processedAt :: "int option"
  pe_notes :: "string option"

record OvertimeSettings =
  os_employeeId :: string
  overtimeMultiplier :: rat

record AuditLog =
  al_id :: string
  timestamp :: int
  userId :: string
  userName :: string
  action :: string
  entityType :: string
  entityId :: string

record HRMState =
  employees :: "Employee list"
  timeLogs :: "TimeLog list"
  tasks :: "Task list"
  leaveRequests :: "LeaveRequest list"
  payrollEntries :: "PayrollEntry list"
  overtimeSettings :: "OvertimeSettings list"
  auditLogs :: "AuditLog list"
  currentUser :: "string option"

text \<open>
  What a handler reports instead of changing the state: the \<open>toast.error\<close> messages of
  the views, and \<open>SilentReturn\<close> for an early \<open>return\<close> without a message.
\<close>

datatype error =
    AlreadyCheckedIn
  | InvalidCheckOut
  | TasksRequired
  | InvalidBreak
  | AlreadyOnBreak
  | NoActiveBreak
  | PayrollAlreadyProcessed
  | SilentReturn

section \<open>JavaScript numbers\<close>

text \<open>
  Every arithmetic operation of the code yields the double nearest to the exact result,
  a tie going to the even significand (IEEE 754 binary64, 53 significant bits, smallest
  exponent \<open>-1074\<close>). \<open>floorLog2 q\<close> is the binary exponent of a positive \<open>q\<close>, found by
  halving or doubling. Results of magnitude \<open>2^1024\<close> and above (\<open>Infinity\<close>) are outside
  the model.
\<close>

function expoUp :: "rat \<Rightarrow> int" where
  "expoUp q = (if q < 2 then 0 else 1 + expoUp (q / 2))"
  by pat_completeness auto
termination
proof (relation "measure (\<lambda>q. nat \<lfloor>q\<rfloor>)")
  show "wf (measure (\<lambda>q. nat \<lfloor>q\<rfloor>))" by simp
next
  fix q :: rat
  assume "\<not> q < 2"
  then have q: "2 \<le> q" by simp
  have "of_int \<lfloor>q / 2\<rfloor> \<le> q / 2" by (rule of_int_floor_le)
  also have "\<dots> \<le> q - 1" using q by simp
  also have "\<dots> < of_int \<lfloor>q\<rfloor>" by linarith
  finally have "\<lfloor>q / 2\<rfloor> < \<lfloor>q\<rfloor>" by simp
  moreover have "0 < \<lfloor>q\<rfloor>" using q by simp
  ultimately show "(q / 2, q) \<in> measure (\<lambda>q. nat \<lfloor>q\<rfloor>)" by simp
qed

function expoDown :: "rat \<Rightarrow> int" where
  "expoDown q = (if q \<le> 0 \<or> 1 \<le> q then 0 else expoDown (q * 2) - 1)"
  by pat_completeness auto
termination
proof (relation "measure (\<lambda>q. nat \<lfloor>1 / q\<rfloor>)")
  show "wf (measure (\<lambda>q. nat \<lfloor>1 / q\<rfloor>))" by simp
next
  fix q :: rat
  assume "\<not> (q \<le> 0 \<or> 1 \<le> q)"
  then have q: "0 < q" "q < 1" by simp_all
  define x where "x = 1 / q"
  have x: "1 < x" using q by (simp add: x_def)
  have h: "1 / (q * 2) = x / 2" by (simp add: x_def)
  have "\<lfloor>x / 2\<rfloor> < \<lfloor>x\<rfloor>"
  proof (cases "2 \<le> x")
    case True
    have "of_int \<lfloor>x / 2\<rfloor> \<le> x / 2" by (rule of_int_floor_le)
    also have "\<dots> \<le> x - 1" using True by simp
    also have "\<dots> < of_int \<lfloor>x\<rfloor>" by linarith
    finally show ?thesis by simp
  next
    case False
    then have "\<lfloor>x / 2\<rfloor> = 0" using x by (simp add: floor_eq_iff)
    moreover have "1 \<le> \<lfloor>x\<rfloor>" using x by (simp add: le_floor_iff)
    ultimately show ?thesis by simp
  qed
  moreover have "0 < \<lfloor>x\<rfloor>" using x by (simp add: floor_less_iff less_floor_iff)
  ultimately show "(q * 2, q) \<in> measure (\<lambda>q. nat \<lfloor>1 / q\<rfloor>)"
    unfolding h x_def [symmetric] by (simp add: x_def [symmetric] h)
qed

declare expoUp.simps [simp del] expoDown.simps [simp del]

definition floorLog2 :: "rat \<Rightarrow> int" where
  "floorLog2 q = (if 1 \<le> q then expoUp q else expoDown q)"

definition pow2 :: "int \<Rightarrow> rat" where
  "pow2 e = (if 0 \<le> e then 2 ^ nat e else 1 / 2 ^ nat (- e))"

definition roundEven :: "rat \<Rightarrow> int" where
  "roundEven x =
     (let f = \<lfloor>x\<rfloor>; r = x - of_int f
      in if r < 1 / 2 then f else if 1 / 2 < r then f + 1 else if even f then f else f + 1)"

definition roundPositive :: "rat \<Rightarrow> rat" where
  "roundPositive q =
     (let e = max (floorLog2 q - 52) (- 1074)
      in of_int (roundEven (q / pow2 e)) * pow2 e)"

definition toDouble :: "rat \<Rightarrow> rat" where
  "toDouble q = (if q = 0 then 0 else if q < 0 then - roundPositive (- q) else roundPositive q)"

definition dadd :: "rat \<Rightarrow> rat \<Rightarrow> rat" where
  "dadd a b = toDouble (a + b)"

definition dsub :: "rat \<Rightarrow> rat \<Rightarrow> rat" where
  "dsub a b = toDouble (a - b)"

definition dmul :: "rat \<Rightarrow> rat \<Rightarrow> rat" where
  "dmul a b = toDouble (a * b)"

definition ddiv :: "rat \<Rightarrow> rat \<Rightarrow> rat" where
  "ddiv a b = toDouble (a / b)"

section \<open>Identifiers and audit entries\<close>

text \<open>Decimal rendering of a number inside a template literal such as \<open>log_${Date.now()}\<close>.\<close>

definition digitChar :: "nat \<Rightarrow> char" where
  "digitChar d =
     (if d = 0 then CHR ''0'' else if d = 1 then CHR ''1'' else if d = 2 then CHR ''2''
      else if d = 3 then CHR ''3'' else if d = 4 then CHR ''4'' else if d = 5 then CHR ''5''
      else if d = 6 then CHR ''6'' else if d = 7 then CHR ''7'' else if d = 8 then CHR ''8''
      else CHR ''9'')"

function digits :: "nat \<Rightarrow> string" where
  "digits n = (if n < 10 then [digitChar n] else digits (n div 10) @ [digitChar (n mod 10)])"
  by pat_completeness auto
termination
  by (relation "measure (\<lambda>n. n)") auto

declare digits.simps [simp del]

definition showInt :: "int \<Rightarrow> string" where
  "showInt i = (if i < 0 then CHR ''-'' # digits (nat (- i)) else digits (nat i))"

definition audit :: "Employee \<Rightarrow> int \<Rightarrow> string \<Rightarrow> string \<Rightarrow> string \<Rightarrow> AuditLog" where
  "audit employee now act etype eid =
     \<lparr> al_id = ''audit_'' @ showInt now, timestamp = now,
       userId = emp_id employee, userName = emp_name employee,
       action = act, entityType = etype, entityId = eid \<rparr>"

section \<open>Time Ledger (EmployeeView)\<close>

text \<open>
  The handlers of \<open>EmployeeView\<close> close over the logged-in \<open>employee\<close>, the calendar day
  \<open>today\<close> fixed when the view was mounted, and the current \<open>state\<close>. Each either
  reports an error and leaves the state alone (\<open>Inl\<close>) or returns the next state (\<open>Inr\<close>).
\<close>

definition todayTimeLog :: "Employee \<Rightarrow> string \<Rightarrow> HRMState \<Rightarrow> TimeLog option" where
  "todayTimeLog employee today state =
     find (\<lambda>log. tl_employeeId log = emp_id employee \<and> tl_date log = today) (timeLogs state)"

definition myTasks :: "Employee \<Rightarrow> string \<Rightarrow> HRMState \<Rightarrow> Task list" where
  "myTasks employee today state =
     filter (\<lambda>task. task_employeeId task = emp_id employee \<and> task_date task = today) (tasks state)"

definition handleCheckIn :: "Employee \<Rightarrow> string \<Rightarrow> int \<Rightarrow> HRMState \<Rightarrow> error + HRMState" where
  "handleCheckIn employee today now state =
     (case todayTimeLog employee today state of
        Some _ \<Rightarrow> Inl AlreadyCheckedIn
      | None \<Rightarrow>
          (let newLog = \<lparr> tl_id = ''log_'' @ showInt now, tl_employeeId = emp_id employee,
                          tl_date = today, checkIn = Some now, checkOut = None, breaks = [],
                          totalHours = 0, tl_status = CheckedIn \<rparr>
           in Inr (state\<lparr> timeLogs := timeLogs state @ [newLog],
                          auditLogs := auditLogs state @
                            [audit employee now ''Check In'' ''TimeLog'' (tl_id newLog)] \<rparr>)))"

text \<open>
  \<open>new Date(todayTimeLog.checkIn!)\<close>: the \<open>!\<close> is erased at run time, and
  \<open>new Date(null).getTime()\<close> is \<open>0\<close>.
\<close>

definition dateOfCheckIn :: "int option \<Rightarrow> int" where
  "dateOfCheckIn c = (case c of None \<Rightarrow> 0 | Some t \<Rightarrow> t)"

text \<open>
  The \<open>forEach\<close> over the breaks of \<open>handleCheckOut\<close>: each break is subtracted from the
  running \<open>totalMs\<close>; a break without \<open>breakOut\<close> ends at the check-out time. The
  values of \<open>getTime()\<close> are whole milliseconds, whose sums and differences are exact in
  doubles (they stay below \<open>2^53\<close>); the division into hours is rounded.
\<close>

definition subtractBreak :: "int \<Rightarrow> int \<Rightarrow> BreakLog \<Rightarrow> int" where
  "subtractBreak checkOutTime totalMs breakLog =
     totalMs - ((case breakOut breakLog of Some t \<Rightarrow> t | None \<Rightarrow> checkOutTime) - breakIn breakLog)"

definition checkOutTotalHours :: "int \<Rightarrow> int \<Rightarrow> BreakLog list \<Rightarrow> rat" where
  "checkOutTotalHours checkInTime checkOutTime bs =
     (let totalMs = foldl (subtractBreak checkOutTime) (checkOutTime - checkInTime) bs
      in max 0 (ddiv (of_int totalMs) (1000 * 60 * 60)))"

text \<open>The updater \<open>handleCheckOut\<close> hands to \<open>onUpdateState\<close>, for today's entry \<open>tlog\<close>.\<close>

definition checkOutUpdater :: "Employee \<Rightarrow> int \<Rightarrow> TimeLog \<Rightarrow> HRMState \<Rightarrow> HRMState" where
  "checkOutUpdater employee now tlog state =
     (let total = checkOutTotalHours (dateOfCheckIn (checkIn tlog)) now (breaks tlog);
          updatedTimeLogs =
            map (\<lambda>log. if tl_id log = tl_id tlog
                        then log\<lparr> checkOut := Some now, totalHours := total,
                                  tl_status := CheckedOut \<rparr>
                        else log) (timeLogs state)
      in state\<lparr> timeLogs := updatedTimeLogs,
                 auditLogs := auditLogs state @
                   [audit employee now ''Check Out'' ''TimeLog'' (tl_id tlog)] \<rparr>)"

definition handleCheckOut :: "Employee \<Rightarrow> string \<Rightarrow> int \<Rightarrow> HRMState \<Rightarrow> error + HRMState" where
  "handleCheckOut employee today now state =
     (case todayTimeLog employee today state of
        None \<Rightarrow> Inl InvalidCheckOut
      | Some tlog \<Rightarrow>
          if checkOut tlog \<noteq> None then Inl InvalidCheckOut
          else if length (myTasks employee today state) = 0 then Inl TasksRequired
          else Inr (checkOutUpdater employee now tlog state))"

text \<open>
  \<open>b.breakIn && !b.breakOut\<close>: a break is open when it has no \<open>breakOut\<close>; its
  \<open>breakIn\<close> is a timestamp and never falsy.
\<close>

definition isOpenBreak :: "BreakLog \<Rightarrow> bool" where
  "isOpenBreak b = (breakOut b = None)"

definition handleBreakIn :: "Employee \<Rightarrow> string \<Rightarrow> int \<Rightarrow> HRMState \<Rightarrow> error + HRMState" where
  "handleBreakIn employee today now state =
     (case todayTimeLog employee today state of
        None \<Rightarrow> Inl InvalidBreak
      | Some tlog \<Rightarrow>
          if checkOut tlog \<noteq> None then Inl InvalidBreak
          else if find isOpenBreak (breaks tlog) \<noteq> None then Inl AlreadyOnBreak
          else
            Inr (state\<lparr> timeLogs :=
                           map (\<lambda>log. if tl_id log = tl_id tlog
                                       then log\<lparr> breaks := breaks log @
                                                    [\<lparr> breakIn = now, breakOut = None \<rparr>] \<rparr>
                                       else log) (timeLogs state),
                         auditLogs := auditLogs state @
                           [audit employee now ''Break Start'' ''TimeLog'' (tl_id tlog)] \<rparr>))"

text \<open>
  \<open>handleBreakOut\<close> picks \<open>currentBreak\<close>, the first break of today's entry without
  \<open>breakOut\<close>, and closes the break that is that very object (\<open>b === currentBreak\<close>).
  Object identity is position here: the entry is the first one of the employee and day,
  the break is the first open one in it. Another entry that happens to carry the same
  id is rebuilt with its breaks as they were.
\<close>

fun closeFirstOpen :: "int \<Rightarrow> BreakLog list \<Rightarrow> BreakLog list" where
  "closeFirstOpen now [] = []"
| "closeFirstOpen now (b # bs) =
     (if isOpenBreak b then b\<lparr> breakOut := Some now \<rparr> # bs else b # closeFirstOpen now bs)"

fun closeBreakOfToday :: "(TimeLog \<Rightarrow> bool) \<Rightarrow> int \<Rightarrow> TimeLog list \<Rightarrow> TimeLog list" where
  "closeBreakOfToday isToday now [] = []"
| "closeBreakOfToday isToday now (entry # entries) =
     (if isToday entry then entry\<lparr> breaks := closeFirstOpen now (breaks entry) \<rparr> # entries
      else entry # closeBreakOfToday isToday now entries)"

definition handleBreakOut :: "Employee \<Rightarrow> string \<Rightarrow> int \<Rightarrow> HRMState \<Rightarrow> error + HRMState" where
  "handleBreakOut employee today now state =
     (case todayTimeLog employee today state of
        None \<Rightarrow> Inl SilentReturn
      | Some tlog \<Rightarrow>
          (case find isOpenBreak (breaks tlog) of
             None \<Rightarrow> Inl NoActiveBreak
           | Some currentBreak \<Rightarrow>
               Inr (state\<lparr> timeLogs :=
                              closeBreakOfToday
                                (\<lambda>log. tl_employeeId log = emp_id employee \<and> tl_date log = today)
                                now (timeLogs state),
                            auditLogs := auditLogs state @
                              [audit employee now ''Break End'' ''TimeLog'' (tl_id tlog)] \<rparr>)))"

section \<open>Task Log and leave requests (EmployeeView)\<close>

text \<open>
  \<open>String.prototype.trim\<close> removes white space and line terminators from both ends:
  TAB, LF, VT, FF, CR, SPACE, NO-BREAK SPACE (U+00A0), U+1680, U+2000 to U+200A,
  LINE and PARAGRAPH SEPARATOR (U+2028, U+2029), U+202F, U+205F, U+3000 and the byte
  order mark U+FEFF.
\<close>

definition isSpace :: "nat \<Rightarrow> bool" where
  "isSpace c = ((9 \<le> c \<and> c \<le> 13) \<or> c = 32 \<or> c = 160 \<or> c = 5760
                \<or> (8192 \<le> c \<and> c \<le> 8202) \<or> c = 8232 \<or> c = 8233 \<or> c = 8239
                \<or> c = 8287 \<or> c = 12288 \<or> c = 65279)"

definition trim :: "jstext \<Rightarrow> jstext" where
  "trim s = rev (dropWhile isSpace (rev (dropWhile isSpace s)))"

definition handleAddTask :: "Employee \<Rightarrow> string \<Rightarrow> int \<Rightarrow> jstext \<Rightarrow> rat \<Rightarrow> HRMState \<Rightarrow> HRMState" where
  "handleAddTask employee today now descr hours state =
     (let newTask = \<lparr> task_id = ''task_'' @ showInt now, task_employeeId = emp_id employee,
                       task_date = today, description = descr, hoursSpent = hours,
                       task_status = TaskPending, managerComment = None,
                       task_reviewedBy = None, task_reviewedAt = None \<rparr>
      in state\<lparr> tasks := tasks state @ [newTask],
                 auditLogs := auditLogs state @
                   [audit employee now ''Task Created'' ''Task'' (task_id newTask)] \<rparr>)"

text \<open>
  \<open>TaskLogger.handleSubmit\<close>: the hours field is the result of \<open>parseFloat\<close>, \<open>None\<close>
  when the field is empty or not a number.
\<close>

definition TaskLogger_handleSubmit ::
  "Employee \<Rightarrow> string \<Rightarrow> int \<Rightarrow> jstext \<Rightarrow> rat option \<Rightarrow> HRMState \<Rightarrow> error + HRMState" where
  "TaskLogger_handleSubmit employee today now descr hours state =
     (case hours of
        None \<Rightarrow> Inl SilentReturn
      | Some h \<Rightarrow>
          if trim descr \<noteq> [] \<and> h > 0
          then Inr (handleAddTask employee today now (trim descr) h state)
          else Inl SilentReturn)"

definition handleDeleteTask :: "Employee \<Rightarrow> int \<Rightarrow> string \<Rightarrow> HRMState \<Rightarrow> error + HRMState" where
  "handleDeleteTask employee now taskId state =
     (case find (\<lambda>t. task_id t = taskId) (tasks state) of
        None \<Rightarrow> Inl SilentReturn
      | Some task \<Rightarrow>
          Inr (state\<lparr> tasks := filter (\<lambda>t. task_id t \<noteq> taskId) (tasks state),
                       auditLogs := auditLogs state @
                         [audit employee now ''Task Deleted'' ''Task'' taskId] \<rparr>))"

definition handleRequestLeave ::
  "Employee \<Rightarrow> int \<Rightarrow> string \<Rightarrow> string \<Rightarrow> jstext \<Rightarrow> HRMState \<Rightarrow> HRMState" where
  "handleRequestLeave employee now start end' rsn state =
     (let newRequest = \<lparr> lr_id = ''leave_'' @ showInt now, lr_employeeId = emp_id employee,
                          startDate = start, endDate = end', reason = rsn,
                          lr_status = LeavePending, requestedAt = now,
                          lr_reviewedBy = None, lr_reviewedAt = None, reviewComment = None \<rparr>
      in state\<lparr> leaveRequests := leaveRequests state @ [newRequest],
                 auditLogs := auditLogs state @
                   [audit employee now ''Leave Request Created'' ''LeaveRequest''
                      (lr_id newRequest)] \<rparr>)"

text \<open>
  \<open>LeaveManagementEmployee.handleSubmit\<close>: the only checks between the form and
  \<open>handleRequestLeave\<close> are that both dates are filled in and that the trimmed reason
  is not empty; otherwise the click does nothing.
\<close>

definition LeaveManagementEmployee_handleSubmit ::
  "Employee \<Rightarrow> int \<Rightarrow> string \<Rightarrow> string \<Rightarrow> jstext \<Rightarrow> HRMState \<Rightarrow> error + HRMState" where
  "LeaveManagementEmployee_handleSubmit employee now start end' rsn state =
     (if start \<noteq> [] \<and> end' \<noteq> [] \<and> trim rsn \<noteq> []
      then Inr (handleRequestLeave employee now start end' (trim rsn) state)
      else Inl SilentReturn)"

section \<open>Reviews and comp leave (ManagerView)\<close>

definition handleApproveTask ::
  "Employee \<Rightarrow> int \<Rightarrow> string \<Rightarrow> jstext option \<Rightarrow> HRMState \<Rightarrow> HRMState" where
  "handleApproveTask employee now taskId withComment state =
     state\<lparr> tasks :=
              map (\<lambda>task. if task_id task = taskId
                           then task\<lparr> task_status := TaskApproved, managerComment := withComment,
                                      task_reviewedBy := Some (emp_id employee),
                                      task_reviewedAt := Some now \<rparr>
                           else task) (tasks state),
            auditLogs := auditLogs state @
              [audit employee now ''Task Approved'' ''Task'' taskId] \<rparr>"

definition handleCommentTask ::
  "Employee \<Rightarrow> int \<Rightarrow> string \<Rightarrow> jstext \<Rightarrow> HRMState \<Rightarrow> error + HRMState" where
  "handleCommentTask employee now taskId commentText state =
     (if trim commentText = [] then Inl SilentReturn
      else
        Inr (state\<lparr> tasks :=
                       map (\<lambda>task. if task_id task = taskId
                                    then task\<lparr> task_status := TaskCommented,
                                               managerComment := Some commentText,
                                               task_reviewedBy := Some (emp_id employee),
                                               task_reviewedAt := Some now \<rparr>
                                    else task) (tasks state),
                     auditLogs := auditLogs state @
                       [audit employee now ''Task Reviewed'' ''Task'' taskId] \<rparr>))"

text \<open>
  \<open>handleApproveLeave\<close> returns early when the request or its employee is not found.
  It does not look at the status of the request.
\<close>

definition handleApproveLeave ::
  "Employee \<Rightarrow> int \<Rightarrow> string \<Rightarrow> bool \<Rightarrow> jstext option \<Rightarrow> HRMState \<Rightarrow> error + HRMState" where
  "handleApproveLeave employee now leaveId approved comment state =
     (case find (\<lambda>l. lr_id l = leaveId) (leaveRequests state) of
        None \<Rightarrow> Inl SilentReturn
      | Some leave \<Rightarrow>
          (case find (\<lambda>e. emp_id e = lr_employeeId leave) (employees state) of
             None \<Rightarrow> Inl SilentReturn
           | Some emp \<Rightarrow>
               (let updatedLeaveRequests =
                      map (\<lambda>req. if lr_id req = leaveId
                                  then req\<lparr> lr_status := (if approved then LeaveApproved
                                                            else LeaveRejected),
                                            lr_reviewedBy := Some (emp_id employee),
                                            lr_reviewedAt := Some now,
                                            reviewComment := comment \<rparr>
                                  else req) (leaveRequests state);
                    updatedEmployees =
                      (if approved
                       then map (\<lambda>e. if emp_id e = lr_employeeId leave
                                      then e\<lparr> compLeavesUsed := compLeavesUsed e + 1 \<rparr>
                                      else e) (employees state)
                       else employees state)
                in Inr (state\<lparr> leaveRequests := updatedLeaveRequests,
                               employees := updatedEmployees,
                               auditLogs := auditLogs state @
                                 [audit employee now
                                    (if approved then ''Leave Approved'' else ''Leave Rejected'')
                                    ''LeaveRequest'' leaveId] \<rparr>))))"

text \<open>
  \<open>LeaveReviewView\<close>: the Review button of a request is rendered only while
  \<open>request.status === 'pending'\<close>; clicking it selects the request. The Approve and
  Reject buttons of the dialog then call \<open>handleApprove\<close>, which passes the selected
  request's id and the trimmed comment (or \<open>undefined\<close>) on to \<open>handleApproveLeave\<close>.
\<close>

definition LeaveReviewView_review :: "LeaveRequest \<Rightarrow> LeaveRequest option" where
  "LeaveReviewView_review request =
     (if lr_status request = LeavePending then Some request else None)"

definition LeaveReviewView_handleApprove ::
  "Employee \<Rightarrow> int \<Rightarrow> LeaveRequest option \<Rightarrow> bool \<Rightarrow> jstext \<Rightarrow> HRMState \<Rightarrow> error + HRMState" where
  "LeaveReviewView_handleApprove employee now selectedLeave approved comment state =
     (case selectedLeave of
        None \<Rightarrow> Inl SilentReturn
      | Some sel \<Rightarrow>
          handleApproveLeave employee now (lr_id sel) approved
            (if trim comment = [] then None else Some (trim comment)) state)"

text \<open>\<open>handleGrantCompLeave\<close> has the same body in \<open>ManagerView\<close> and \<open>AdminView\<close>.\<close>

definition handleGrantCompLeave :: "Employee \<Rightarrow> int \<Rightarrow> string \<Rightarrow> rat \<Rightarrow> HRMState \<Rightarrow> HRMState" where
  "handleGrantCompLeave employee now employeeId days state =
     state\<lparr> employees :=
              map (\<lambda>emp. if emp_id emp = employeeId
                          then emp\<lparr> compLeavesEarned := compLeavesEarned emp + days \<rparr>
                          else emp) (employees state),
            auditLogs := auditLogs state @
              [audit employee now ''Comp Leave Granted'' ''Employee'' employeeId] \<rparr>"

text \<open>
  \<open>getMonthlyHours\<close> of \<open>TeamMembersView\<close>, for the month \<open>thisMonth\<close> of the clock: the
  entries of the month are those whose date starts with it (\<open>log.date.startsWith\<close>).
\<close>

definition getMonthlyHours :: "string \<Rightarrow> HRMState \<Rightarrow> string \<Rightarrow> rat" where
  "getMonthlyHours thisMonth state employeeId =
     foldl (\<lambda>sum log. dadd sum (totalHours log)) 0
       (filter (\<lambda>log. tl_employeeId log = employeeId
                    \<and> take (length thisMonth) (tl_date log) = thisMonth) (timeLogs state))"

section \<open>Administration and payroll (AdminView)\<close>

text \<open>A \<open>Partial<Employee>\<close>: a field that is present overrides the employee's.\<close>

record EmployeePatch =
  p_emp_id :: "string option"
  p_emp_name :: "string option"
  p_email :: "string option"
  p_managerId :: "string option option"
  p_monthlyHourTarget :: "rat option"
  p_hourlyRate :: "rat option"
  p_role :: "UserRole option"
  p_compLeavesEarned :: "rat option"
  p_compLeavesUsed :: "rat option"

definition orElse :: "'a option \<Rightarrow> 'a \<Rightarrow> 'a" where
  "orElse x d = (case x of Some v \<Rightarrow> v | None \<Rightarrow> d)"

definition applyEmployeePatch :: "Employee \<Rightarrow> EmployeePatch \<Rightarrow> Employee" where
  "applyEmployeePatch emp updates =
     \<lparr> emp_id = orElse (p_emp_id updates) (emp_id emp),
       emp_name = orElse (p_emp_name updates) (emp_name emp),
       email = orElse (p_email updates) (email emp),
       managerId = orElse (p_managerId updates) (managerId emp),
       monthlyHourTarget = orElse (p_monthlyHourTarget updates) (monthlyHourTarget emp),
       hourlyRate = orElse (p_hourlyRate updates) (hourlyRate emp),
       role = orElse (p_role updates) (role emp),
       compLeavesEarned = orElse (p_compLeavesEarned updates) (compLeavesEarned emp),
       compLeavesUsed = orElse (p_compLeavesUsed updates) (compLeavesUsed emp) \<rparr>"

text \<open>\<open>newEmployee\<close> is an \<open>Omit<Employee, 'id'>\<close>: its \<open>emp_id\<close> is not read.\<close>

definition handleCreateEmployee :: "Employee \<Rightarrow> int \<Rightarrow> Employee \<Rightarrow> HRMState \<Rightarrow> HRMState" where
  "handleCreateEmployee employee now newEmployee state =
     (let newId = ''emp_'' @ showInt now
      in state\<lparr> employees := employees state @ [newEmployee\<lparr> emp_id := newId \<rparr>],
                 overtimeSettings := overtimeSettings state @
                   [\<lparr> os_employeeId = newId,
                      overtimeMultiplier =
                        (if monthlyHourTarget newEmployee = 100 then 5 / 4 else 1) \<rparr>],
                 auditLogs := auditLogs state @
                   [audit employee now ''Employee Created'' ''Employee'' newId] \<rparr>)"

definition handleUpdateEmployee ::
  "Employee \<Rightarrow> int \<Rightarrow> string \<Rightarrow> EmployeePatch \<Rightarrow> HRMState \<Rightarrow> HRMState" where
  "handleUpdateEmployee employee now employeeId updates state =
     state\<lparr> employees :=
              map (\<lambda>emp. if emp_id emp = employeeId then applyEmployeePatch emp updates else emp)
                (employees state),
            auditLogs := auditLogs state @
              [audit employee now ''Employee Updated'' ''Employee'' employeeId] \<rparr>"

definition handleDeleteEmployee :: "Employee \<Rightarrow> int \<Rightarrow> string \<Rightarrow> HRMState \<Rightarrow> error + HRMState" where
  "handleDeleteEmployee employee now employeeId state =
     (case find (\<lambda>e. emp_id e = employeeId) (employees state) of
        None \<Rightarrow> Inl SilentReturn
      | Some emp \<Rightarrow>
          Inr (state\<lparr>
                 employees := filter (\<lambda>e. emp_id e \<noteq> employeeId) (employees state),
                 timeLogs := filter (\<lambda>t. tl_employeeId t \<noteq> employeeId) (timeLogs state),
                 tasks := filter (\<lambda>t. task_employeeId t \<noteq> employeeId) (tasks state),
                 leaveRequests :=
                   filter (\<lambda>l. lr_employeeId l \<noteq> employeeId) (leaveRequests state),
                 payrollEntries :=
                   filter (\<lambda>p. pe_employeeId p \<noteq> employeeId) (payrollEntries state),
                 overtimeSettings :=
                   filter (\<lambda>s. os_employeeId s \<noteq> employeeId) (overtimeSettings state),
                 auditLogs := auditLogs state @
                   [audit employee now ''Employee Deleted'' ''Employee'' employeeId] \<rparr>))"

definition handleUpdateOvertimeSettings ::
  "Employee \<Rightarrow> int \<Rightarrow> string \<Rightarrow> rat \<Rightarrow> HRMState \<Rightarrow> HRMState" where
  "handleUpdateOvertimeSettings employee now employeeId multiplier state =
     (let existingSettings = find (\<lambda>s. os_employeeId s = employeeId) (overtimeSettings state);
          updatedSettings =
            (if existingSettings \<noteq> None
             then map (\<lambda>s. if os_employeeId s = employeeId
                            then s\<lparr> overtimeMultiplier := multiplier \<rparr> else s)
                    (overtimeSettings state)
             else overtimeSettings state @
                    [\<lparr> os_employeeId = employeeId, overtimeMultiplier = multiplier \<rparr>])
      in state\<lparr> overtimeSettings := updatedSettings,
                 auditLogs := auditLogs state @
                   [audit employee now ''Overtime Settings Updated'' ''OvertimeSettings''
                      employeeId] \<rparr>)"

text \<open>
  The calendar functions \<open>handleProcessPayroll\<close> calls are not code of the repository
  (\<open>Date\<close> of the host, \<open>startOfMonth\<close> and \<open>endOfMonth\<close> of date-fns, both reading the
  host's time zone): they are parameters. \<open>newDate s\<close> is \<open>new Date(s).getTime()\<close>, with
  \<open>None\<close> for an invalid date; comparing with an invalid date is false.
\<close>

record DateLib =
  newDate :: "string \<Rightarrow> int option"
  startOfMonth :: "int \<Rightarrow> int"
  endOfMonth :: "int \<Rightarrow> int"

definition dateGe :: "int option \<Rightarrow> int option \<Rightarrow> bool" where
  "dateGe a b = (case (a, b) of (Some x, Some y) \<Rightarrow> x \<ge> y | _ \<Rightarrow> False)"

definition dateLe :: "int option \<Rightarrow> int option \<Rightarrow> bool" where
  "dateLe a b = (case (a, b) of (Some x, Some y) \<Rightarrow> x \<le> y | _ \<Rightarrow> False)"

definition monthStartOf :: "DateLib \<Rightarrow> string \<Rightarrow> int option" where
  "monthStartOf lib m = map_option (startOfMonth lib) (newDate lib (m @ ''-01''))"

definition monthEndOf :: "DateLib \<Rightarrow> string \<Rightarrow> int option" where
  "monthEndOf lib m = map_option (endOfMonth lib) (monthStartOf lib m)"

definition monthLogs :: "DateLib \<Rightarrow> string \<Rightarrow> HRMState \<Rightarrow> Employee \<Rightarrow> TimeLog list" where
  "monthLogs lib m state emp =
     filter (\<lambda>log. tl_employeeId log = emp_id emp
                  \<and> dateGe (newDate lib (tl_date log)) (monthStartOf lib m)
                  \<and> dateLe (newDate lib (tl_date log)) (monthEndOf lib m)
                  \<and> checkOut log \<noteq> None)
       (timeLogs state)"

text \<open>
  \<open>settings?.overtimeMultiplier || 1.0\<close>: the default is taken when there is no record
  and also when the stored multiplier is falsy, that is \<open>0\<close>.
\<close>

definition multiplierOrDefault :: "OvertimeSettings option \<Rightarrow> rat" where
  "multiplierOrDefault settings =
     (case settings of
        None \<Rightarrow> 1
      | Some s \<Rightarrow> if overtimeMultiplier s = 0 then 1 else overtimeMultiplier s)"

text \<open>
  The body of the \<open>forEach\<close> over the employees, up to the entry it would push. The hours
  are added up from the left, each sum rounded; \<open>Math.min\<close> and the comparisons are exact.
\<close>

definition payrollEntryFor ::
  "DateLib \<Rightarrow> Employee \<Rightarrow> int \<Rightarrow> string \<Rightarrow> HRMState \<Rightarrow> Employee \<Rightarrow> PayrollEntry" where
  "payrollEntryFor lib employee now m state emp =
     (let total = foldl (\<lambda>sum log. dadd sum (totalHours log)) 0 (monthLogs lib m state emp);
          target = monthlyHourTarget emp;
          compLeavesAvailable = compLeavesEarned emp - compLeavesUsed emp;
          regular = min total target;
          overtime = (if total > target \<and> compLeavesAvailable \<le> 0 then dsub total target
                      else 0);
          settings = find (\<lambda>s. os_employeeId s = emp_id emp) (overtimeSettings state);
          mult = multiplierOrDefault settings;
          rPay = dmul regular (hourlyRate emp);
          oPay = dmul (dmul overtime (hourlyRate emp)) mult
      in \<lparr> pe_id = ''payroll_'' @ showInt now @ ''_'' @ emp_id emp,
           pe_employeeId = emp_id emp, month = m,
           regularHours = regular, overtimeHours = overtime,
           regularPay = rPay, overtimePay = oPay, totalPay = dadd rPay oPay,
           pe_status = PayPending, processedBy = Some (emp_id employee),
           processedAt = Some now, pe_notes = None \<rparr>)"

definition hasPayroll :: "HRMState \<Rightarrow> string \<Rightarrow> Employee \<Rightarrow> bool" where
  "hasPayroll state m emp =
     (find (\<lambda>p. pe_employeeId p = emp_id emp \<and> month p = m) (payrollEntries state) \<noteq> None)"

definition newPayrollEntries ::
  "DateLib \<Rightarrow> Employee \<Rightarrow> int \<Rightarrow> string \<Rightarrow> HRMState \<Rightarrow> PayrollEntry list" where
  "newPayrollEntries lib employee now m state =
     map (payrollEntryFor lib employee now m state)
       (filter (\<lambda>emp. \<not> hasPayroll state m emp) (employees state))"

definition handleProcessPayroll ::
  "DateLib \<Rightarrow> Employee \<Rightarrow> int \<Rightarrow> string \<Rightarrow> HRMState \<Rightarrow> error + HRMState" where
  "handleProcessPayroll lib employee now m state =
     (let new = newPayrollEntries lib employee now m state
      in if length new = 0 then Inl PayrollAlreadyProcessed
         else Inr (state\<lparr> payrollEntries := payrollEntries state @ new,
                          auditLogs := auditLogs state @
                            [audit employee now ''Payroll Processed'' ''Payroll'' m] \<rparr>))"

text \<open>A \<open>Partial<PayrollEntry>\<close>.\<close>

record PayrollPatch =
  p_regularHours :: "rat option"
  p_overtimeHours :: "rat option"
  p_regularPay :: "rat option"
  p_overtimePay :: "rat option"
  p_totalPay :: "rat option"
  p_status :: "PayrollStatus option"
  p_notes :: "string option"

definition applyPayrollPatch :: "PayrollEntry \<Rightarrow> PayrollPatch \<Rightarrow> PayrollEntry" where
  "applyPayrollPatch entry updates =
     entry\<lparr> regularHours := orElse (p_regularHours updates) (regularHours entry),
            overtimeHours := orElse (p_overtimeHours updates) (overtimeHours entry),
            regularPay := orElse (p_regularPay updates) (regularPay entry),
            overtimePay := orElse (p_overtimePay updates) (overtimePay entry),
            totalPay := orElse (p_totalPay updates) (totalPay entry),
            pe_status := orElse (p_status updates) (pe_status entry),
            pe_notes := (case p_notes updates of Some n \<Rightarrow> Some n | None \<Rightarrow> pe_notes entry) \<rparr>"

definition handleUpdatePayroll ::
  "Employee \<Rightarrow> int \<Rightarrow> string \<Rightarrow> PayrollPatch \<Rightarrow> HRMState \<Rightarrow> HRMState" where
  "handleUpdatePayroll employee now payrollId updates state =
     state\<lparr> payrollEntries :=
              map (\<lambda>entry. if pe_id entry = payrollId then applyPayrollPatch entry updates
                            else entry) (payrollEntries state),
            auditLogs := auditLogs state @
              [audit employee now ''Payroll Updated'' ''Payroll'' payrollId] \<rparr>"

text \<open>
  \<open>PayrollManagementView.handleUpdatePayroll\<close>: recomputes the pay fields from the edited
  (or else the stored) hours with the employee's current rate and multiplier, and hands
  the patch to \<open>handleUpdatePayroll\<close> of \<open>AdminView\<close>.
\<close>

definition PayrollManagementView_handleUpdatePayroll ::
  "Employee \<Rightarrow> int \<Rightarrow> PayrollEntry option \<Rightarrow> PayrollPatch \<Rightarrow> HRMState \<Rightarrow> error + HRMState" where
  "PayrollManagementView_handleUpdatePayroll employee now selectedPayroll editValues state =
     (case selectedPayroll of
        None \<Rightarrow> Inl SilentReturn
      | Some sel \<Rightarrow>
          (case find (\<lambda>e. emp_id e = pe_employeeId sel) (employees state) of
             None \<Rightarrow> Inl SilentReturn
           | Some emp \<Rightarrow>
               (let regular = orElse (p_regularHours editValues) (regularHours sel);
                    overtime = orElse (p_overtimeHours editValues) (overtimeHours sel);
                    settings = find (\<lambda>s. os_employeeId s = emp_id emp) (overtimeSettings state);
                    mult = multiplierOrDefault settings;
                    rPay = dmul regular (hourlyRate emp);
                    oPay = dmul (dmul overtime (hourlyRate emp)) mult
                in Inr (handleUpdatePayroll employee now (pe_id sel)
                          (editValues\<lparr> p_regularPay := Some rPay, p_overtimePay := Some oPay,
                                       p_totalPay := Some (dadd rPay oPay) \<rparr>) state))))"

section \<open>Operations as one transition function\<close>

text \<open>
  \<open>onUpdateState\<close> replaces the state by the handler's result; a handler that returned
  early never calls it, so the state stays as it was.
\<close>

definition run :: "(HRMState \<Rightarrow> error + HRMState) \<Rightarrow> HRMState \<Rightarrow> HRMState" where
  "run h state = (case h state of Inl _ \<Rightarrow> state | Inr state' \<Rightarrow> state')"

datatype Op =
    OpCheckIn string
  | OpCheckOut string
  | OpBreakIn string
  | OpBreakOut string
  | OpAddTask string jstext rat
  | OpDeleteTask string
  | OpRequestLeave string string jstext
  | OpApproveTask string "jstext option"
  | OpCommentTask string jstext
  | OpApproveLeave string bool "jstext option"
  | OpGrantCompLeave string rat
  | OpCreateEmployee Employee
  | OpUpdateEmployee string EmployeePatch
  | OpDeleteEmployee string
  | OpUpdateOvertimeSettings string rat
  | OpProcessPayroll DateLib string
  | OpUpdatePayroll string PayrollPatch

fun step :: "Employee \<Rightarrow> int \<Rightarrow> Op \<Rightarrow> HRMState \<Rightarrow> error + HRMState" where
  "step employee now (OpCheckIn today) state = handleCheckIn employee today now state"
| "step employee now (OpCheckOut today) state = handleCheckOut employee today now state"
| "step employee now (OpBreakIn today) state = handleBreakIn employee today now state"
| "step employee now (OpBreakOut today) state = handleBreakOut employee today now state"
| "step employee now (OpAddTask today descr hours) state =
     Inr (handleAddTask employee today now descr hours state)"
| "step employee now (OpDeleteTask taskId) state = handleDeleteTask employee now taskId state"
| "step employee now (OpRequestLeave start end' rsn) state =
     Inr (handleRequestLeave employee now start end' rsn state)"
| "step employee now (OpApproveTask taskId withComment) state =
     Inr (handleApproveTask employee now taskId withComment state)"
| "step employee now (OpCommentTask taskId commentText) state =
     handleCommentTask employee now taskId commentText state"
| "step employee now (OpApproveLeave leaveId approved comment) state =
     handleApproveLeave employee now leaveId approved comment state"
| "step employee now (OpGrantCompLeave employeeId days) state =
     Inr (handleGrantCompLeave employee now employeeId days state)"
| "step employee now (OpCreateEmployee newEmployee) state =
     Inr (handleCreateEmployee employee now newEmployee state)"
| "step employee now (OpUpdateEmployee employeeId updates) state =
     Inr (handleUpdateEmployee employee now employeeId updates state)"
| "step employee now (OpDeleteEmployee employeeId) state =
     handleDeleteEmployee employee now employeeId state"
| "step employee now (OpUpdateOvertimeSettings employeeId multiplier) state =
     Inr (handleUpdateOvertimeSettings employee now employeeId multiplier state)"
| "step employee now (OpProcessPayroll lib m) state =
     handleProcessPayroll lib employee now m state"
| "step employee now (OpUpdatePayroll payrollId updates) state =
     Inr (handleUpdatePayroll employee now payrollId updates state)"

text \<open>A session: each call names the acting user, the time of the call and the operation.\<close>

fun runAll :: "(Employee \<times> int \<times> Op) list \<Rightarrow> HRMState \<Rightarrow> HRMState" where
  "runAll [] state = state"
| "runAll ((employee, now, op) # calls) state = runAll calls (run (step employee now op) state)"

fun succeeded :: "(Employee \<times> int \<times> Op) list \<Rightarrow> HRMState \<Rightarrow> nat" where
  "succeeded [] state = 0"
| "succeeded ((employee, now, op) # calls) state =
     (if isl (step employee now op state) then 0 else 1)
     + succeeded calls (run (step employee now op) state)"

text \<open>The id an audit entry is expected to name, operation by operation.\<close>

fun affectedEntity :: "Employee \<Rightarrow> int \<Rightarrow> Op \<Rightarrow> HRMState \<Rightarrow> string" where
  "affectedEntity employee now (OpCheckIn today) state = ''log_'' @ showInt now"
| "affectedEntity employee now (OpCheckOut today) state =
     (case todayTimeLog employee today state of Some tlog \<Rightarrow> tl_id tlog | None \<Rightarrow> [])"
| "affectedEntity employee now (OpBreakIn today) state =
     (case todayTimeLog employee today state of Some tlog \<Rightarrow> tl_id tlog | None \<Rightarrow> [])"
| "affectedEntity employee now (OpBreakOut today) state =
     (case todayTimeLog employee today state of Some tlog \<Rightarrow> tl_id tlog | None \<Rightarrow> [])"
| "affectedEntity employee now (OpAddTask today descr hours) state = ''task_'' @ showInt now"
| "affectedEntity employee now (OpDeleteTask taskId) state = taskId"
| "affectedEntity employee now (OpRequestLeave start end' rsn) state = ''leave_'' @ showInt now"
| "affectedEntity employee now (OpApproveTask taskId withComment) state = taskId"
| "affectedEntity employee now (OpCommentTask taskId commentText) state = taskId"
| "affectedEntity employee now (OpApproveLeave leaveId approved comment) state = leaveId"
| "affectedEntity employee now (OpGrantCompLeave employeeId days) state = employeeId"
| "affectedEntity employee now (OpCreateEmployee newEmployee) state = ''emp_'' @ showInt now"
| "affectedEntity employee now (OpUpdateEmployee employeeId updates) state = employeeId"
| "affectedEntity employee now (OpDeleteEmployee employeeId) state = employeeId"
| "affectedEntity employee now (OpUpdateOvertimeSettings employeeId multiplier) state = employeeId"
| "affectedEntity employee now (OpProcessPayroll lib m) state = m"
| "affectedEntity employee now (OpUpdatePayroll payrollId updates) state = payrollId"

section \<open>The specification's formulas\<close>

text \<open>
  Specification, section 4.1: \<open>totalHours = max(0, (checkOut - checkIn) -
  \<Sigma>(breakOut_i - breakIn_i))\<close> in fractional hours, a break that is still open being
  closed at the check-out time. The difference is taken in milliseconds and divided by
  the milliseconds of an hour as a JavaScript number.
\<close>

definition specBreakMs :: "int \<Rightarrow> BreakLog \<Rightarrow> int" where
  "specBreakMs checkOutTime b = (case breakOut b of None \<Rightarrow> checkOutTime | Some t \<Rightarrow> t) - breakIn b"

definition specTotalHours :: "int \<Rightarrow> int \<Rightarrow> BreakLog list \<Rightarrow> rat" where
  "specTotalHours checkInTime checkOutTime bs =
     max 0 (ddiv (of_int ((checkOutTime - checkInTime)
                            - sum_list (map (specBreakMs checkOutTime) bs))) 3600000)"

text \<open>The same quantity as an exact rational number of hours, before any rounding.\<close>

definition specExactHours :: "int \<Rightarrow> int \<Rightarrow> BreakLog list \<Rightarrow> rat" where
  "specExactHours checkInTime checkOutTime bs =
     max 0 (of_int ((checkOutTime - checkInTime)
                      - sum_list (map (specBreakMs checkOutTime) bs)) / 3600000)"

text \<open>
  Specification, section 4.4, steps 1 and 2: the hours of one employee in a month are
  summed over the employee's entries that have a check-out and whose date falls within
  the month. A date \<open>YYYY-MM-DD\<close> falls within the month \<open>YYYY-MM\<close> when it starts with it.
\<close>

definition specInMonth :: "string \<Rightarrow> string \<Rightarrow> bool" where
  "specInMonth m d = (take (length m) d = m)"

definition specMonthHours :: "string \<Rightarrow> HRMState \<Rightarrow> Employee \<Rightarrow> rat" where
  "specMonthHours m state emp =
     foldl dadd 0
       (map totalHours
          (filter (\<lambda>log. tl_employeeId log = emp_id emp \<and> specInMonth m (tl_date log)
                       \<and> checkOut log \<noteq> None) (timeLogs state)))"

text \<open>
  Specification, section 4.3: a leave range is invalid when its end lies before its start.
  On dates written \<open>YYYY-MM-DD\<close> the calendar order is the lexicographic order.
\<close>

fun dateLess :: "string \<Rightarrow> string \<Rightarrow> bool" where
  "dateLess [] [] = False"
| "dateLess [] (y # ys) = True"
| "dateLess (x # xs) [] = False"
| "dateLess (x # xs) (y # ys) =
     ((of_char x :: nat) < of_char y \<or> (x = y \<and> dateLess xs ys))"

text \<open>
  Specification, section 4.5: a transition is audited when it appends exactly one entry
  to the audit log, made by \<open>audit\<close> for the acting user, the time of the call and the
  entity \<open>eid\<close>.
\<close>

definition audited :: "Employee \<Rightarrow> int \<Rightarrow> string \<Rightarrow> HRMState \<Rightarrow> HRMState \<Rightarrow> bool" where
  "audited employee now eid state state' =
     (\<exists>act etype. auditLogs state' = auditLogs state @ [audit employee now act etype eid])"

section \<open>Example data\<close>

text \<open>Concrete employees, days and states on which the theorems below are exercised.\<close>

definition ex_alice :: Employee where
  "ex_alice = \<lparr> emp_id = ''emp_1'', emp_name = ''Alice'', email = ''alice@harphrm.com'',
                 managerId = Some ''emp_9'', monthlyHourTarget = 80, hourlyRate = 5000,
                 role = RoleEmployee, compLeavesEarned = 1, compLeavesUsed = 0 \<rparr>"

definition ex_bob :: Employee where
  "ex_bob = \<lparr> emp_id = ''emp_2'', emp_name = ''Bob'', email = ''bob@harphrm.com'',
               managerId = Some ''emp_9'', monthlyHourTarget = 80, hourlyRate = 5000,
               role = RoleEmployee, compLeavesEarned = 1, compLeavesUsed = 1 \<rparr>"

definition ex_carol :: Employee where
  "ex_carol = \<lparr> emp_id = ''emp_9'', emp_name = ''Carol'', email = ''carol@harphrm.com'',
                 managerId = None, monthlyHourTarget = 100, hourlyRate = 8000,
                 role = RoleManager, compLeavesEarned = 0, compLeavesUsed = 0 \<rparr>"

definition ex_day :: string where
  "ex_day = ''2024-01-15''"

definition ex_empty :: HRMState where
  "ex_empty = \<lparr> employees = [ex_alice, ex_bob, ex_carol], timeLogs = [], tasks = [],
                 leaveRequests = [], payrollEntries = [], overtimeSettings = [],
                 auditLogs = [], currentUser = None \<rparr>"

text \<open>
  Alice checked in at time 0, took a break from 1h to 1h30 and is on a second break
  since 2h; she has logged one task.
\<close>

definition ex_aliceLog :: TimeLog where
  "ex_aliceLog = \<lparr> tl_id = ''log_0'', tl_employeeId = ''emp_1'', tl_date = ''2024-01-15'',
                    checkIn = Some 0, checkOut = None,
                    breaks = [\<lparr> breakIn = 3600000, breakOut = Some 5400000 \<rparr>,
                              \<lparr> breakIn = 7200000, breakOut = None \<rparr>],
                    totalHours = 0, tl_status = CheckedIn \<rparr>"

definition ex_aliceTask :: Task where
  "ex_aliceTask = \<lparr> task_id = ''task_100'', task_employeeId = ''emp_1'',
                     task_date = ''2024-01-15'', description = utf16 ''Reports'', hoursSpent = 2,
                     task_status = TaskPending, managerComment = None,
                     task_reviewedBy = None, task_reviewedAt = None \<rparr>"

text \<open>Bob checked in the same day and is still working.\<close>

definition ex_bobLog :: TimeLog where
  "ex_bobLog = \<lparr> tl_id = ''log_50'', tl_employeeId = ''emp_2'', tl_date = ''2024-01-15'',
                  checkIn = Some 50, checkOut = None, breaks = [],
                  totalHours = 0, tl_status = CheckedIn \<rparr>"

definition ex_working :: HRMState where
  "ex_working = ex_empty\<lparr> timeLogs := [ex_aliceLog, ex_bobLog], tasks := [ex_aliceTask] \<rparr>"

text \<open>The same day before Alice has logged a task, and after she has checked out.\<close>

definition ex_noTasks :: HRMState where
  "ex_noTasks = ex_empty\<lparr> timeLogs := [ex_aliceLog, ex_bobLog] \<rparr>"

definition ex_done :: HRMState where
  "ex_done = ex_empty\<lparr> timeLogs := [ex_aliceLog\<lparr> checkOut := Some 9000000 \<rparr>, ex_bobLog],
                        tasks := [ex_aliceTask] \<rparr>"

text \<open>
  Alice and Bob check in within the same millisecond, so that both entries get the id
  \<open>log_1000\<close>; Alice then logs a task.
\<close>

definition ex_twoLogs :: HRMState where
  "ex_twoLogs = handleAddTask ex_alice ex_day 2000 (utf16 ''Reports'') 2
                  (run (handleCheckIn ex_bob ex_day 1000)
                     (run (handleCheckIn ex_alice ex_day 1000) ex_empty))"

text \<open>Alice has asked for two weeks of leave; nobody has reviewed the request yet.\<close>

definition ex_leave :: LeaveRequest where
  "ex_leave = \<lparr> lr_id = ''leave_7'', lr_employeeId = ''emp_1'', startDate = ''2024-02-01'',
                 endDate = ''2024-02-14'', reason = utf16 ''Family visit'', lr_status = LeavePending,
                 requestedAt = 7, lr_reviewedBy = None, lr_reviewedAt = None,
                 reviewComment = None \<rparr>"

definition ex_leaveState :: HRMState where
  "ex_leaveState = ex_empty\<lparr> leaveRequests := [ex_leave] \<rparr>"

text \<open>
  A calendar that knows January 2024 in UTC: the first and last millisecond of the month
  and the midnights of a few days.
\<close>

definition ex_lib :: DateLib where
  "ex_lib = \<lparr> newDate = (\<lambda>s. if s = ''2023-12-31'' then Some 1703980800000
                           else if s = ''2024-01-01'' then Some 1704067200000
                           else if s = ''2024-01-15'' then Some 1705276800000
                           else if s = ''2024-01-31'' then Some 1706659200000
                           else if s = ''2024-02-01'' then Some 1706745600000
                           else None),
               startOfMonth = (\<lambda>t. 1704067200000),
               endOfMonth = (\<lambda>t. 1706745599999) \<rparr>"

definition ex_log :: "string \<Rightarrow> string \<Rightarrow> string \<Rightarrow> int option \<Rightarrow> rat \<Rightarrow> TimeLog" where
  "ex_log i e d out h =
     \<lparr> tl_id = i, tl_employeeId = e, tl_date = d, checkIn = Some 0, checkOut = out,
       breaks = [], totalHours = h,
       tl_status = (if out = None then CheckedIn else CheckedOut) \<rparr>"

text \<open>
  January 2024: Alice and Bob each have 90 hours in checked-out entries of the month;
  Alice also has an entry of December, one of February and one without check-out. Alice
  holds one unused comp leave, Bob none. Only Bob has overtime settings.
\<close>

definition ex_january :: HRMState where
  "ex_january = ex_empty\<lparr>
     timeLogs := [ex_log ''log_1'' ''emp_1'' ''2024-01-01'' (Some 1) 50,
                  ex_log ''log_2'' ''emp_2'' ''2024-01-15'' (Some 1) 60,
                  ex_log ''log_3'' ''emp_1'' ''2024-01-31'' (Some 1) 40,
                  ex_log ''log_4'' ''emp_1'' ''2023-12-31'' (Some 1) 7,
                  ex_log ''log_5'' ''emp_1'' ''2024-02-01'' (Some 1) 9,
                  ex_log ''log_6'' ''emp_1'' ''2024-01-15'' None 5,
                  ex_log ''log_7'' ''emp_2'' ''2024-01-31'' (Some 1) 30],
     overtimeSettings := [\<lparr> os_employeeId = ''emp_2'', overtimeMultiplier = 5 / 4 \<rparr>] \<rparr>"

text \<open>
  The calendar of a host whose local time is \<open>offset\<close> milliseconds ahead of UTC, around
  the turn of the year 2023/2024. A date-only ISO string is parsed as midnight UTC on
  every host; \<open>startOfMonth\<close> and \<open>endOfMonth\<close> of date-fns give the first and the last
  millisecond of the month in local time. The months start, in UTC, on 2023-11-01,
  2023-12-01, 2024-01-01, 2024-02-01 and 2024-03-01.
\<close>

definition ex_midnightUTC :: "string \<Rightarrow> int option" where
  "ex_midnightUTC s =
     (if s = ''2023-12-15'' then Some 1702598400000
      else if s = ''2023-12-31'' then Some 1703980800000
      else if s = ''2024-01-01'' then Some 1704067200000
      else if s = ''2024-01-15'' then Some 1705276800000
      else if s = ''2024-01-31'' then Some 1706659200000
      else if s = ''2024-02-01'' then Some 1706745600000
      else None)"

definition ex_monthStartsUTC :: "int list" where
  "ex_monthStartsUTC =
     [1698796800000, 1701388800000, 1704067200000, 1706745600000, 1709251200000]"

fun lastAtMost :: "int \<Rightarrow> int list \<Rightarrow> int \<Rightarrow> int" where
  "lastAtMost d [] t = d"
| "lastAtMost d (b # bs) t = (if b \<le> t then lastAtMost b bs t else d)"

fun firstAbove :: "int list \<Rightarrow> int \<Rightarrow> int" where
  "firstAbove [] t = t + 1"
| "firstAbove (b # bs) t = (if t < b then b else firstAbove bs t)"

definition ex_host :: "int \<Rightarrow> DateLib" where
  "ex_host offset =
     \<lparr> newDate = ex_midnightUTC,
       startOfMonth = (\<lambda>t. lastAtMost t (map (\<lambda>b. b - offset) ex_monthStartsUTC) t),
       endOfMonth = (\<lambda>t. firstAbove (map (\<lambda>b. b - offset) ex_monthStartsUTC) t - 1) \<rparr>"

text \<open>A host in Los Angeles (UTC-8) and a host in Karachi (UTC+5).\<close>

definition ex_losAngeles :: DateLib where
  "ex_losAngeles = ex_host (- 28800000)"

definition ex_karachi :: DateLib where
  "ex_karachi = ex_host 18000000"

text \<open>
  Alice has worked 7 hours on 15 December 2023 and 50 hours on 15 January 2024; both
  entries are checked out.
\<close>

definition ex_winter :: HRMState where
  "ex_winter = \<lparr> employees = [ex_alice],
                  timeLogs = [ex_log ''log_1'' ''emp_1'' ''2023-12-15'' (Some 1) 7,
                              ex_log ''log_2'' ''emp_1'' ''2024-01-15'' (Some 1) 50],
                  tasks = [], leaveRequests = [], payrollEntries = [],
                  overtimeSettings = [], auditLogs = [], currentUser = None \<rparr>"

text \<open>A state in which every collection holds records of Alice and of Bob.\<close>

definition ex_pay :: "string \<Rightarrow> string \<Rightarrow> PayrollEntry" where
  "ex_pay i e = \<lparr> pe_id = i, pe_employeeId = e, month = ''2023-12'', regularHours = 80,
                  overtimeHours = 0, regularPay = 400000, overtimePay = 0, totalPay = 400000,
                  pe_status = PayPaid, processedBy = Some ''emp_9'', processedAt = Some 5,
                  pe_notes = None \<rparr>"

definition ex_full :: HRMState where
  "ex_full = ex_january\<lparr>
     tasks := [ex_aliceTask, ex_aliceTask\<lparr> task_id := ''task_101'', task_employeeId := ''emp_2'' \<rparr>],
     leaveRequests := [ex_leave, ex_leave\<lparr> lr_id := ''leave_8'', lr_employeeId := ''emp_2'' \<rparr>],
     payrollEntries := [ex_pay ''payroll_5_emp_1'' ''emp_1'', ex_pay ''payroll_5_emp_2'' ''emp_2''],
     overtimeSettings := [\<lparr> os_employeeId = ''emp_1'', overtimeMultiplier = 1 \<rparr>,
                          \<lparr> os_employeeId = ''emp_2'', overtimeMultiplier = 5 / 4 \<rparr>] \<rparr>"

text \<open>
  A session on the empty state: Alice checks in, tries to check out before logging a
  task, logs a task, checks out; Carol then grants her a comp leave.
\<close>

definition ex_session :: "(Employee \<times> int \<times> Op) list" where
  "ex_session = [(ex_alice, 1000, OpCheckIn ex_day),
                 (ex_alice, 1500, OpCheckOut ex_day),
                 (ex_alice, 2000, OpAddTask ex_day (utf16 ''Reports'') 2),
                 (ex_alice, 5000, OpCheckOut ex_day),
                 (ex_carol, 6000, OpGrantCompLeave ''emp_1'' 1)]"

section \<open>Auxiliary lemmas\<close>

lemma digits_small: "n < 10 \<Longrightarrow> digits n = [digitChar n]"
  by (subst digits.simps) simp

lemma digits_big: "\<not> n < 10 \<Longrightarrow> digits n = digits (n div 10) @ [digitChar (n mod 10)]"
  by (subst digits.simps) simp

lemmas showInt_eval = showInt_def digits_small digits_big digitChar_def

lemma expoUp_lt: "q < 2 \<Longrightarrow> expoUp q = 0"
  by (subst expoUp.simps) simp
lemma expoUp_ge: "\<not> q < 2 \<Longrightarrow> expoUp q = 1 + expoUp (q / 2)"
  by (subst expoUp.simps) simp
lemma expoDown_stop: "q \<le> 0 \<or> 1 \<le> q \<Longrightarrow> expoDown q = 0"
  by (subst expoDown.simps) simp
lemma expoDown_step: "\<not> (q \<le> 0 \<or> 1 \<le> q) \<Longrightarrow> expoDown q = expoDown (q * 2) - 1"
  by (subst expoDown.simps) simp

lemmas double_eval = dadd_def dsub_def dmul_def ddiv_def toDouble_def roundPositive_def roundEven_def pow2_def floorLog2_def
  expoUp_lt expoUp_ge expoDown_stop expoDown_step Let_def

lemma in_set_map_obtain: "r \<in> set (map f xs) \<Longrightarrow> \<exists>x \<in> set xs. r = f x"
  by auto

lemma find_Some_P: "find P xs = Some x \<Longrightarrow> P x"
  by (induction xs) (auto split: if_splits)

lemma find_map_preserved:
  "find P xs = Some x \<Longrightarrow> (\<And>y. P (f y) = P y) \<Longrightarrow> find P (map f xs) = Some (f x)"
  by (induction xs) (auto split: if_splits)

lemma foldl_subtractBreak:
  "foldl (subtractBreak co) acc bs = acc - sum_list (map (specBreakMs co) bs)"
  by (induction bs arbitrary: acc)
     (simp_all add: subtractBreak_def specBreakMs_def split: option.splits)

lemma checkOutTotalHours_spec:
  "checkOutTotalHours ci co bs = specTotalHours ci co bs"
  by (simp add: checkOutTotalHours_def specTotalHours_def foldl_subtractBreak)

lemma specTotalHours_mset:
  assumes "mset bs' = mset bs"
  shows "specTotalHours ci co bs' = specTotalHours ci co bs"
proof -
  from assms have "mset (map (specBreakMs co) bs') = mset (map (specBreakMs co) bs)"
    by simp
  then have "sum_list (map (specBreakMs co) bs') = sum_list (map (specBreakMs co) bs)"
    by (metis sum_mset_sum_list)
  then show ?thesis
    by (simp add: specTotalHours_def)
qed

lemma handleCheckOut_Inr:
  assumes "handleCheckOut employee today now state = Inr state'"
  shows "\<exists>tlog. todayTimeLog employee today state = Some tlog \<and> checkOut tlog = None
           \<and> myTasks employee today state \<noteq> []
           \<and> state' = checkOutUpdater employee now tlog state"
proof (cases "todayTimeLog employee today state")
  case None
  with assms show ?thesis by (simp add: handleCheckOut_def)
next
  case (Some tlog)
  with assms show ?thesis by (simp add: handleCheckOut_def split: if_splits)
qed

lemma timeLogs_checkOutUpdater:
  "timeLogs (checkOutUpdater employee now tlog state) =
     map (\<lambda>log. if tl_id log = tl_id tlog
                 then log\<lparr> checkOut := Some now,
                           totalHours := checkOutTotalHours (dateOfCheckIn (checkIn tlog)) now
                                           (breaks tlog),
                           tl_status := CheckedOut \<rparr>
                 else log) (timeLogs state)"
  by (simp add: checkOutUpdater_def Let_def)

lemma others_checkOutUpdater:
  "employees (checkOutUpdater employee now tlog state) = employees state
   \<and> tasks (checkOutUpdater employee now tlog state) = tasks state
   \<and> leaveRequests (checkOutUpdater employee now tlog state) = leaveRequests state
   \<and> payrollEntries (checkOutUpdater employee now tlog state) = payrollEntries state
   \<and> overtimeSettings (checkOutUpdater employee now tlog state) = overtimeSettings state
   \<and> currentUser (checkOutUpdater employee now tlog state) = currentUser state"
  by (simp add: checkOutUpdater_def Let_def)

lemma todayTimeLog_handleAddTask:
  "todayTimeLog employee today (handleAddTask employee' today' now descr hours state)
     = todayTimeLog employee today state"
  by (simp add: todayTimeLog_def handleAddTask_def Let_def)

lemma myTasks_handleAddTask:
  "myTasks employee today (handleAddTask employee today now descr hours state) \<noteq> []"
  by (simp add: myTasks_def handleAddTask_def Let_def)

lemmas ex_defs = ex_alice_def ex_bob_def ex_carol_def ex_day_def ex_empty_def
  ex_aliceLog_def ex_bobLog_def ex_aliceTask_def ex_working_def ex_noTasks_def ex_done_def
  ex_leave_def ex_leaveState_def ex_lib_def ex_log_def ex_january_def ex_midnightUTC_def ex_monthStartsUTC_def
  ex_host_def ex_losAngeles_def ex_karachi_def ex_winter_def
  ex_pay_def ex_full_def ex_session_def

lemma handleApproveLeave_found:
  assumes "find (\<lambda>l. lr_id l = leaveId) (leaveRequests state) = Some leave"
    and "find (\<lambda>e. emp_id e = lr_employeeId leave) (employees state) = Some emp"
  shows "handleApproveLeave reviewer now leaveId approved comment state =
     Inr (state\<lparr> leaveRequests :=
                   map (\<lambda>req. if lr_id req = leaveId
                               then req\<lparr> lr_status := (if approved then LeaveApproved
                                                         else LeaveRejected),
                                         lr_reviewedBy := Some (emp_id reviewer),
                                         lr_reviewedAt := Some now,
                                         reviewComment := comment \<rparr>
                               else req) (leaveRequests state),
                 employees :=
                   (if approved
                    then map (\<lambda>e. if emp_id e = lr_employeeId leave
                                   then e\<lparr> compLeavesUsed := compLeavesUsed e + 1 \<rparr>
                                   else e) (employees state)
                    else employees state),
                 auditLogs := auditLogs state @
                   [audit reviewer now
                      (if approved then ''Leave Approved'' else ''Leave Rejected'')
                      ''LeaveRequest'' leaveId] \<rparr>)"
  using assms by (simp add: handleApproveLeave_def Let_def)

lemma handleApproveLeave_Inr:
  assumes "handleApproveLeave reviewer now leaveId approved comment state = Inr state'"
  shows "leaveRequests state' =
           map (\<lambda>req. if lr_id req = leaveId
                       then req\<lparr> lr_status := (if approved then LeaveApproved else LeaveRejected),
                                 lr_reviewedBy := Some (emp_id reviewer),
                                 lr_reviewedAt := Some now, reviewComment := comment \<rparr>
                       else req) (leaveRequests state)"
proof (cases "find (\<lambda>l. lr_id l = leaveId) (leaveRequests state)")
  case None
  with assms show ?thesis by (simp add: handleApproveLeave_def)
next
  case (Some leave)
  show ?thesis
  proof (cases "find (\<lambda>e. emp_id e = lr_employeeId leave) (employees state)")
    case None
    with Some assms show ?thesis by (simp add: handleApproveLeave_def)
  next
    case (Some emp)
    from assms show ?thesis
      unfolding handleApproveLeave_found [OF \<open>find (\<lambda>l. lr_id l = leaveId) (leaveRequests state) = Some leave\<close> Some]
      by auto
  qed
qed

lemma trim_empty_iff: "trim s = [] \<longleftrightarrow> (\<forall>c \<in> set s. isSpace c)"
proof
  assume "trim s = []"
  then have "\<forall>c \<in> set (dropWhile isSpace s). isSpace c"
    by (simp add: trim_def dropWhile_eq_Nil_conv)
  then have "dropWhile isSpace s = []"
    using hd_dropWhile [of isSpace s] by (cases "dropWhile isSpace s") auto
  then show "\<forall>c \<in> set s. isSpace c"
    by (simp add: dropWhile_eq_Nil_conv)
next
  assume "\<forall>c \<in> set s. isSpace c"
  then have "dropWhile isSpace s = []" by (induction s) simp_all
  then show "trim s = []" unfolding trim_def by (simp only: rev.simps dropWhile.simps)
qed

lemma handleDeleteEmployee_found:
  assumes "find (\<lambda>e. emp_id e = employeeId) (employees state) = Some emp"
  shows "handleDeleteEmployee employee now employeeId state =
          Inr (state\<lparr>
                 employees := filter (\<lambda>e. emp_id e \<noteq> employeeId) (employees state),
                 timeLogs := filter (\<lambda>t. tl_employeeId t \<noteq> employeeId) (timeLogs state),
                 tasks := filter (\<lambda>t. task_employeeId t \<noteq> employeeId) (tasks state),
                 leaveRequests :=
                   filter (\<lambda>l. lr_employeeId l \<noteq> employeeId) (leaveRequests state),
                 payrollEntries :=
                   filter (\<lambda>p. pe_employeeId p \<noteq> employeeId) (payrollEntries state),
                 overtimeSettings :=
                   filter (\<lambda>s. os_employeeId s \<noteq> employeeId) (overtimeSettings state),
                 auditLogs := auditLogs state @
                   [audit employee now ''Employee Deleted'' ''Employee'' employeeId] \<rparr>)"
  using assms by (simp add: handleDeleteEmployee_def)

lemma filter_other:
  "x \<noteq> e \<Longrightarrow> filter (\<lambda>r. f r \<noteq> e \<and> f r = x) rs = filter (\<lambda>r. f r = x) rs"
  by (induction rs) auto

lemma audit_fields:
  "userId (audit employee now act etype eid) = emp_id employee
   \<and> userName (audit employee now act etype eid) = emp_name employee
   \<and> timestamp (audit employee now act etype eid) = now
   \<and> entityId (audit employee now act etype eid) = eid"
  by (simp add: audit_def)

lemma audited_I:
  "auditLogs state' = auditLogs state @ [audit employee now act etype eid]
   \<Longrightarrow> audited employee now eid state state'"
  unfolding audited_def by blast

lemma audit_handleCheckIn:
  assumes "handleCheckIn employee today now state = Inr state'"
  shows "audited employee now (''log_'' @ showInt now) state state'"
proof (cases "todayTimeLog employee today state")
  case None
  with assms have "state' = state\<lparr> timeLogs := timeLogs state @
       [\<lparr> tl_id = ''log_'' @ showInt now, tl_employeeId = emp_id employee,
          tl_date = today, checkIn = Some now, checkOut = None, breaks = [],
          totalHours = 0, tl_status = CheckedIn \<rparr>],
     auditLogs := auditLogs state @
       [audit employee now ''Check In'' ''TimeLog'' (''log_'' @ showInt now)] \<rparr>"
    by (simp add: handleCheckIn_def Let_def)
  then show ?thesis by (intro audited_I) simp
next
  case (Some a)
  with assms show ?thesis by (simp add: handleCheckIn_def)
qed

lemma audit_handleCheckOut:
  assumes "handleCheckOut employee today now state = Inr state'"
  shows "audited employee now
           (case todayTimeLog employee today state of Some tlog \<Rightarrow> tl_id tlog | None \<Rightarrow> [])
           state state'"
proof -
  from handleCheckOut_Inr [OF assms] obtain tlog
    where t: "todayTimeLog employee today state = Some tlog"
      and s: "state' = checkOutUpdater employee now tlog state" by blast
  show ?thesis unfolding t s by (intro audited_I) (simp add: checkOutUpdater_def Let_def)
qed

lemma audit_handleBreakIn:
  assumes "handleBreakIn employee today now state = Inr state'"
  shows "audited employee now
           (case todayTimeLog employee today state of Some tlog \<Rightarrow> tl_id tlog | None \<Rightarrow> [])
           state state'"
proof (cases "todayTimeLog employee today state")
  case None
  with assms show ?thesis by (simp add: handleBreakIn_def)
next
  case (Some tlog)
  with assms have "auditLogs state' = auditLogs state @
                           [audit employee now ''Break Start'' ''TimeLog'' (tl_id tlog)]"
    by (auto simp add: handleBreakIn_def split: if_splits)
  then show ?thesis unfolding Some by (intro audited_I) simp
qed

lemma audit_handleBreakOut:
  assumes "handleBreakOut employee today now state = Inr state'"
  shows "audited employee now
           (case todayTimeLog employee today state of Some tlog \<Rightarrow> tl_id tlog | None \<Rightarrow> [])
           state state'"
proof (cases "todayTimeLog employee today state")
  case None
  with assms show ?thesis by (simp add: handleBreakOut_def)
next
  case (Some tlog)
  with assms have "auditLogs state' = auditLogs state @
                           [audit employee now ''Break End'' ''TimeLog'' (tl_id tlog)]"
    by (auto simp add: handleBreakOut_def split: option.splits)
  then show ?thesis unfolding Some by (intro audited_I) simp
qed

lemma audit_handleDeleteTask:
  assumes "handleDeleteTask employee now taskId state = Inr state'"
  shows "audited employee now taskId state state'"
proof (cases "find (\<lambda>t. task_id t = taskId) (tasks state)")
  case None
  with assms show ?thesis by (simp add: handleDeleteTask_def)
next
  case (Some t)
  with assms have "auditLogs state' = auditLogs state @
                         [audit employee now ''Task Deleted'' ''Task'' taskId]"
    by (auto simp add: handleDeleteTask_def)
  then show ?thesis by (intro audited_I) simp
qed

lemma audit_handleCommentTask:
  assumes "handleCommentTask employee now taskId commentText state = Inr state'"
  shows "audited employee now taskId state state'"
proof -
  from assms have "auditLogs state' = auditLogs state @
                       [audit employee now ''Task Reviewed'' ''Task'' taskId]"
    by (auto simp add: handleCommentTask_def split: if_splits)
  then show ?thesis by (intro audited_I) simp
qed

lemma audit_handleApproveLeave:
  assumes "handleApproveLeave employee now leaveId approved comment state = Inr state'"
  shows "audited employee now leaveId state state'"
proof (cases "find (\<lambda>l. lr_id l = leaveId) (leaveRequests state)")
  case None
  with assms show ?thesis by (simp add: handleApproveLeave_def)
next
  case (Some leave)
  show ?thesis
  proof (cases "find (\<lambda>e. emp_id e = lr_employeeId leave) (employees state)")
    case None
    with Some assms show ?thesis by (simp add: handleApproveLeave_def)
  next
    case (Some emp)
    from assms have "auditLogs state' = auditLogs state @
                                 [audit employee now
                                    (if approved then ''Leave Approved'' else ''Leave Rejected'')
                                    ''LeaveRequest'' leaveId]"
      unfolding handleApproveLeave_found [OF \<open>find (\<lambda>l. lr_id l = leaveId) (leaveRequests state) = Some leave\<close> Some]
      by auto
    then show ?thesis by (rule audited_I)
  qed
qed

lemma audit_handleDeleteEmployee:
  assumes "handleDeleteEmployee employee now employeeId state = Inr state'"
  shows "audited employee now employeeId state state'"
proof (cases "find (\<lambda>e. emp_id e = employeeId) (employees state)")
  case None
  with assms show ?thesis by (simp add: handleDeleteEmployee_def)
next
  case (Some emp)
  from assms have "auditLogs state' = auditLogs state @
                   [audit employee now ''Employee Deleted'' ''Employee'' employeeId]"
    unfolding handleDeleteEmployee_found [OF Some] by auto
  then show ?thesis by (rule audited_I)
qed

lemma audit_handleProcessPayroll:
  assumes "handleProcessPayroll lib employee now m state = Inr state'"
  shows "audited employee now m state state'"
proof -
  from assms have "auditLogs state' = auditLogs state @
                            [audit employee now ''Payroll Processed'' ''Payroll'' m]"
    by (auto simp add: handleProcessPayroll_def Let_def split: if_splits)
  then show ?thesis by (rule audited_I)
qed

lemma audit_total:
  "audited employee now (''task_'' @ showInt now) state
     (handleAddTask employee today now descr hours state)"
  "audited employee now (''leave_'' @ showInt now) state
     (handleRequestLeave employee now start end' rsn state)"
  "audited employee now taskId state (handleApproveTask employee now taskId withComment state)"
  "audited employee now employeeId state (handleGrantCompLeave employee now employeeId days state)"
  "audited employee now (''emp_'' @ showInt now) state
     (handleCreateEmployee employee now newEmployee state)"
  "audited employee now employeeId state (handleUpdateEmployee employee now employeeId updates state)"
  "audited employee now employeeId state
     (handleUpdateOvertimeSettings employee now employeeId multiplier state)"
  "audited employee now payrollId state (handleUpdatePayroll employee now payrollId pupdates state)"
  by (rule audited_I, simp add: handleAddTask_def handleRequestLeave_def handleApproveTask_def
        handleGrantCompLeave_def handleCreateEmployee_def handleUpdateEmployee_def
        handleUpdateOvertimeSettings_def handleUpdatePayroll_def Let_def)+

lemma step_audited:
  assumes "step employee now op state = Inr state'"
  shows "audited employee now (affectedEntity employee now op state) state state'"
proof (cases op)
  case (OpCheckIn today)
  with assms audit_handleCheckIn show ?thesis by auto
next
  case (OpCheckOut today)
  with assms audit_handleCheckOut show ?thesis by auto
next
  case (OpBreakIn today)
  with assms audit_handleBreakIn show ?thesis by auto
next
  case (OpBreakOut today)
  with assms audit_handleBreakOut show ?thesis by auto
next
  case (OpAddTask today descr hours)
  with assms audit_total(1) show ?thesis by auto
next
  case (OpDeleteTask taskId)
  with assms audit_handleDeleteTask show ?thesis by auto
next
  case (OpRequestLeave start end' rsn)
  with assms audit_total(2) show ?thesis by auto
next
  case (OpApproveTask taskId withComment)
  with assms audit_total(3) show ?thesis by auto
next
  case (OpCommentTask taskId commentText)
  with assms audit_handleCommentTask show ?thesis by auto
next
  case (OpApproveLeave leaveId approved comment)
  with assms audit_handleApproveLeave show ?thesis by auto
next
  case (OpGrantCompLeave employeeId days)
  with assms audit_total(4) show ?thesis by auto
next
  case (OpCreateEmployee newEmployee)
  with assms audit_total(5) show ?thesis by auto
next
  case (OpUpdateEmployee employeeId updates)
  with assms audit_total(6) show ?thesis by auto
next
  case (OpDeleteEmployee employeeId)
  with assms audit_handleDeleteEmployee show ?thesis by auto
next
  case (OpUpdateOvertimeSettings employeeId multiplier)
  with assms audit_total(7) show ?thesis by auto
next
  case (OpProcessPayroll lib m)
  with assms audit_handleProcessPayroll show ?thesis by auto
next
  case (OpUpdatePayroll payrollId updates)
  with assms audit_total(8) show ?thesis by auto
qed

lemma run_failed: "isl (h state) \<Longrightarrow> run h state = state"
  by (cases "h state") (simp_all add: run_def)

lemma runAll_audit:
  "\<exists>new. auditLogs (runAll calls state) = auditLogs state @ new
         \<and> length new = succeeded calls state"
proof (induction calls arbitrary: state)
  case Nil
  show ?case by simp
next
  case (Cons call calls)
  obtain employee now op where c: "call = (employee, now, op)" by (cases call)
  show ?case
  proof (cases "step employee now op state")
    case (Inl e)
    then have r: "run (step employee now op) state = state" by (simp add: run_def)
    from Cons.IH [of state] Inl show ?thesis by (simp add: c r)
  next
    case (Inr state')
    then have r: "run (step employee now op) state = state'" by (simp add: run_def)
    from step_audited [OF Inr] obtain a where a: "auditLogs state' = auditLogs state @ [a]"
      unfolding audited_def by blast
    from Cons.IH [of state'] obtain new where n: "auditLogs (runAll calls state') = auditLogs state' @ new"
      and l: "length new = succeeded calls state'" by blast
    have "auditLogs (runAll (call # calls) state) = auditLogs state @ (a # new)"
      by (simp add: c r n a)
    moreover have "length (a # new) = succeeded (call # calls) state"
      by (simp add: c r l Inr)
    ultimately show ?thesis by blast
  qed
qed

lemma ex_session_steps:
  "succeeded ex_session ex_empty = 4
   \<and> map userId (auditLogs (runAll ex_session ex_empty)) = [''emp_1'', ''emp_1'', ''emp_1'', ''emp_9'']
   \<and> map action (auditLogs (runAll ex_session ex_empty))
       = [''Check In'', ''Task Created'', ''Check Out'', ''Comp Leave Granted'']"
  by (simp add: ex_session_def run_def handleCheckIn_def handleCheckOut_def handleAddTask_def
        handleGrantCompLeave_def checkOutUpdater_def todayTimeLog_def myTasks_def Let_def
        audit_def ex_defs)

lemma handleProcessPayroll_Inr:
  assumes "handleProcessPayroll lib employee now m state = Inr state'"
  shows "state' = state\<lparr> payrollEntries := payrollEntries state @
                            newPayrollEntries lib employee now m state,
                         auditLogs := auditLogs state @
                            [audit employee now ''Payroll Processed'' ''Payroll'' m] \<rparr>"
  using assms by (simp add: handleProcessPayroll_def Let_def split: if_splits)

lemma find_append_Some:
  "find P (xs @ ys) \<noteq> None \<longleftrightarrow> find P xs \<noteq> None \<or> find P ys \<noteq> None"
  by (induction xs) auto

lemma hasPayroll_after:
  assumes "emp \<in> set (employees state)"
  shows "find (\<lambda>p. pe_employeeId p = emp_id emp \<and> month p = m)
           (payrollEntries state @ newPayrollEntries lib employee now m state) \<noteq> None"
proof (cases "hasPayroll state m emp")
  case True
  then have "find (\<lambda>p. pe_employeeId p = emp_id emp \<and> month p = m) (payrollEntries state) \<noteq> None"
    unfolding hasPayroll_def .
  then show ?thesis unfolding find_append_Some by (rule disjI1)
next
  case False
  with assms have "payrollEntryFor lib employee now m state emp
                     \<in> set (newPayrollEntries lib employee now m state)"
    by (simp add: newPayrollEntries_def)
  moreover have "pe_employeeId (payrollEntryFor lib employee now m state emp) = emp_id emp
                 \<and> month (payrollEntryFor lib employee now m state emp) = m"
    by (simp add: payrollEntryFor_def Let_def)
  ultimately have "find (\<lambda>p. pe_employeeId p = emp_id emp \<and> month p = m)
                     (newPayrollEntries lib employee now m state) \<noteq> None"
    by (auto simp: find_None_iff)
  then show ?thesis unfolding find_append_Some by (rule disjI2)
qed

lemma second_run:
  assumes "handleProcessPayroll lib employee now m state = Inr state'"
  shows "handleProcessPayroll lib' employee' now' m state' = Inl PayrollAlreadyProcessed"
proof -
  note st = handleProcessPayroll_Inr [OF assms]
  have e: "employees state' = employees state" by (simp add: st)
  have p: "payrollEntries state' = payrollEntries state @ newPayrollEntries lib employee now m state"
    by (simp add: st)
  have "\<forall>emp \<in> set (employees state'). hasPayroll state' m emp"
    unfolding hasPayroll_def e p using hasPayroll_after by blast
  then have "filter (\<lambda>emp. \<not> hasPayroll state' m emp) (employees state') = []"
    by (simp add: filter_empty_conv)
  then show ?thesis
    by (simp add: handleProcessPayroll_def newPayrollEntries_def)
qed

lemma all_processed:
  assumes "\<forall>emp \<in> set (employees state). hasPayroll state m emp"
  shows "handleProcessPayroll lib employee now m state = Inl PayrollAlreadyProcessed"
proof -
  from assms have "filter (\<lambda>emp. \<not> hasPayroll state m emp) (employees state) = []"
    by (simp add: filter_empty_conv)
  then show ?thesis
    by (simp add: handleProcessPayroll_def newPayrollEntries_def)
qed

lemma new_keys:
  "map (\<lambda>p. (pe_employeeId p, month p)) (newPayrollEntries lib employee now m state)
     = map (\<lambda>emp. (emp_id emp, m)) (filter (\<lambda>emp. \<not> hasPayroll state m emp) (employees state))"
  by (simp add: newPayrollEntries_def payrollEntryFor_def Let_def comp_def)

lemma distinct_map_filter_pair:
  "distinct (map f xs) \<Longrightarrow> distinct (map (\<lambda>x. (f x, c)) (filter P xs))"
  by (induction xs) auto

lemma unique_preserved:
  assumes d: "distinct (map emp_id (employees state))"
    and u: "distinct (map (\<lambda>p. (pe_employeeId p, month p)) (payrollEntries state))"
    and ok: "handleProcessPayroll lib employee now m state = Inr state'"
  shows "distinct (map (\<lambda>p. (pe_employeeId p, month p)) (payrollEntries state'))"
proof -
  note st = handleProcessPayroll_Inr [OF ok]
  have p: "payrollEntries state' = payrollEntries state @ newPayrollEntries lib employee now m state"
    by (simp add: st)
  have n: "distinct (map (\<lambda>p. (pe_employeeId p, month p)) (newPayrollEntries lib employee now m state))"
    unfolding new_keys using d by (rule distinct_map_filter_pair)
  have disj: "set (map (\<lambda>p. (pe_employeeId p, month p)) (payrollEntries state))
              \<inter> set (map (\<lambda>p. (pe_employeeId p, month p)) (newPayrollEntries lib employee now m state)) = {}"
  proof (rule ccontr)
    assume "\<not> ?thesis"
    then obtain k where k1: "k \<in> set (map (\<lambda>p. (pe_employeeId p, month p)) (payrollEntries state))"
      and k2: "k \<in> set (map (\<lambda>emp. (emp_id emp, m)) (filter (\<lambda>emp. \<not> hasPayroll state m emp) (employees state)))"
      unfolding new_keys by blast
    from k2 obtain emp where e: "emp \<in> set (employees state)" "\<not> hasPayroll state m emp"
      and ke: "k = (emp_id emp, m)" by auto
    from k1 ke obtain q where q: "q \<in> set (payrollEntries state)"
      "pe_employeeId q = emp_id emp" "month q = m" by auto
    then have "find (\<lambda>p. pe_employeeId p = emp_id emp \<and> month p = m) (payrollEntries state) \<noteq> None"
      by (auto simp: find_None_iff)
    with e(2) show False by (simp add: hasPayroll_def)
  qed
  show ?thesis unfolding p using u n disj by simp
qed

lemma run_twice:
  "run (handleProcessPayroll lib' employee' now' m)
     (run (handleProcessPayroll lib employee now m) state)
   = run (handleProcessPayroll lib employee now m) state"
proof (cases "handleProcessPayroll lib employee now m state")
  case (Inl e)
  then have "filter (\<lambda>emp. \<not> hasPayroll state m emp) (employees state) = []"
    by (simp add: handleProcessPayroll_def newPayrollEntries_def Let_def split: if_splits)
  then have "handleProcessPayroll lib' employee' now' m state = Inl PayrollAlreadyProcessed"
    by (simp add: handleProcessPayroll_def newPayrollEntries_def)
  with Inl show ?thesis by (simp add: run_def)
next
  case (Inr state')
  from second_run [OF Inr, of lib' employee' now'] Inr show ?thesis
    by (simp add: run_def)
qed

lemma payrollEntryFor_fields:
  "pe_employeeId (payrollEntryFor lib employee now m state emp) = emp_id emp
   \<and> month (payrollEntryFor lib employee now m state emp) = m
   \<and> regularHours (payrollEntryFor lib employee now m state emp)
       = min (foldl (\<lambda>sum log. dadd sum (totalHours log)) 0 (monthLogs lib m state emp))
           (monthlyHourTarget emp)
   \<and> overtimeHours (payrollEntryFor lib employee now m state emp)
       = (if foldl (\<lambda>sum log. dadd sum (totalHours log)) 0 (monthLogs lib m state emp)
               > monthlyHourTarget emp
             \<and> compLeavesEarned emp - compLeavesUsed emp \<le> 0
          then dsub (foldl (\<lambda>sum log. dadd sum (totalHours log)) 0 (monthLogs lib m state emp))
                 (monthlyHourTarget emp)
          else 0)
   \<and> regularPay (payrollEntryFor lib employee now m state emp)
       = dmul (regularHours (payrollEntryFor lib employee now m state emp)) (hourlyRate emp)
   \<and> overtimePay (payrollEntryFor lib employee now m state emp)
       = dmul (dmul (overtimeHours (payrollEntryFor lib employee now m state emp))
                 (hourlyRate emp))
           (multiplierOrDefault
              (find (\<lambda>s. os_employeeId s = emp_id emp) (overtimeSettings state)))
   \<and> totalPay (payrollEntryFor lib employee now m state emp)
       = dadd (regularPay (payrollEntryFor lib employee now m state emp))
           (overtimePay (payrollEntryFor lib employee now m state emp))"
  by (simp add: payrollEntryFor_def Let_def)

lemma ex_winter_window:
  "monthStartOf ex_losAngeles ''2024-01'' = Some 1701417600000
   \<and> monthEndOf ex_losAngeles ''2024-01'' = Some 1704095999999
   \<and> monthStartOf ex_karachi ''2024-01'' = Some 1704049200000
   \<and> monthEndOf ex_karachi ''2024-01'' = Some 1706727599999"
  by (simp add: monthStartOf_def monthEndOf_def ex_defs)

lemma double_values: "toDouble 0 = 0" "toDouble 7 = 7" "toDouble 50 = 50" "toDouble 35000 = 35000" "toDouble 250000 = 250000"
  by (simp_all add: double_eval)

lemma double_values_january:
  "toDouble 10 = 10" "toDouble 40 = 40" "toDouble 57 = 57" "toDouble 60 = 60"
  "toDouble 90 = 90" "toDouble 50000 = 50000" "toDouble 62500 = 62500"
  "toDouble 285000 = 285000" "toDouble 400000 = 400000" "toDouble 462500 = 462500"
  by (simp_all add: double_eval)

lemma checkOutUpdater_frame:
  "length (timeLogs (checkOutUpdater employee now tlog state)) = length (timeLogs state)
   \<and> map breaks (timeLogs (checkOutUpdater employee now tlog state))
       = map breaks (timeLogs state)
   \<and> (\<forall>i < length (timeLogs state).
          tl_id (timeLogs state ! i) \<noteq> tl_id tlog \<longrightarrow>
          timeLogs (checkOutUpdater employee now tlog state) ! i = timeLogs state ! i)"
  by (simp add: timeLogs_checkOutUpdater)

subsection \<open>Accuracy of the rounding\<close>


lemma pow2_powi: "pow2 e = 2 powi e"
  by (simp add: pow2_def power_int_def field_simps)

lemma pow2_pos: "0 < pow2 e"
  by (simp add: pow2_powi)

lemma pow2_Suc: "pow2 (e + 1) = 2 * pow2 e"
  by (simp add: pow2_powi power_int_add)

lemma pow2_pred: "pow2 (e - 1) = pow2 e / 2"
  using pow2_Suc [of "e - 1"] by simp

lemma pow2_0: "pow2 0 = 1"
  by (simp add: pow2_def)

lemma pow2_mono: "a \<le> b \<Longrightarrow> pow2 a \<le> pow2 b"
  by (simp add: pow2_powi power_int_increasing)

lemma expoUp_bounds: "1 \<le> q \<Longrightarrow> pow2 (expoUp q) \<le> q \<and> q < pow2 (expoUp q + 1)"
proof (induction q rule: expoUp.induct)
  case (1 q)
  show ?case
  proof (cases "q < 2")
    case True
    with "1.prems" show ?thesis by (simp add: expoUp_lt pow2_def)
  next
    case False
    then have "1 \<le> q / 2" by simp
    with "1.IH" False have "pow2 (expoUp (q / 2)) \<le> q / 2 \<and> q / 2 < pow2 (expoUp (q / 2) + 1)"
      by simp
    then have "2 * pow2 (expoUp (q / 2)) \<le> q \<and> q < 2 * pow2 (expoUp (q / 2) + 1)"
      by simp
    then show ?thesis
      using pow2_Suc [of "expoUp (q / 2)"] pow2_Suc [of "expoUp (q / 2) + 1"]
      by (simp add: expoUp_ge [OF False] add.commute)
  qed
qed

lemma expoDown_bounds:
  "0 < q \<Longrightarrow> q < 1 \<Longrightarrow> pow2 (expoDown q) \<le> q \<and> q < pow2 (expoDown q + 1)"
proof (induction q rule: expoDown.induct)
  case (1 q)
  from "1.prems" have step: "\<not> (q \<le> 0 \<or> 1 \<le> q)" by simp
  have e: "expoDown q = expoDown (q * 2) - 1" by (rule expoDown_step [OF step])
  show ?case
  proof (cases "1 \<le> q * 2")
    case True
    then have "expoDown (q * 2) = 0" by (simp add: expoDown_stop)
    with True "1.prems" show ?thesis
      using pow2_pred [of 0] by (simp add: e pow2_0)
  next
    case False
    with "1.IH" step "1.prems"
    have "pow2 (expoDown (q * 2)) \<le> q * 2 \<and> q * 2 < pow2 (expoDown (q * 2) + 1)"
      by simp
    then show ?thesis
      using pow2_pred [of "expoDown (q * 2)"] pow2_Suc [of "expoDown (q * 2)"]
      by (simp add: e)
  qed
qed

lemma floorLog2_bounds:
  assumes "0 < q"
  shows "pow2 (floorLog2 q) \<le> q \<and> q < pow2 (floorLog2 q + 1)"
proof (cases "1 \<le> q")
  case True
  then show ?thesis by (simp add: floorLog2_def expoUp_bounds)
next
  case False
  with assms show ?thesis by (simp add: floorLog2_def expoDown_bounds)
qed

lemma roundEven_error: "\<bar>of_int (roundEven x) - x\<bar> \<le> 1 / 2"
proof -
  define f where "f = \<lfloor>x\<rfloor>"
  have a: "of_int f \<le> x" unfolding f_def by (rule of_int_floor_le)
  have b: "x < of_int f + 1" unfolding f_def by linarith
  have c: "roundEven x = (if x - of_int f < 1 / 2 then f else if 1 / 2 < x - of_int f then f + 1
                           else if even f then f else f + 1)"
    by (simp add: roundEven_def Let_def f_def)
  consider "x - of_int f < 1 / 2" | "1 / 2 < x - of_int f" | "x - of_int f = 1 / 2"
    by linarith
  then show ?thesis
  proof cases
    case 1
    with a show ?thesis by (simp add: c)
  next
    case 2
    with b show ?thesis by (simp add: c)
  next
    case 3
    then have "roundEven x = f \<or> roundEven x = f + 1" by (simp add: c)
    with 3 show ?thesis by (cases "roundEven x = f") simp_all
  qed
qed

lemma roundEven_nonneg: "0 \<le> x \<Longrightarrow> 0 \<le> roundEven x"
  unfolding roundEven_def Let_def by (auto intro: add_nonneg_nonneg)

lemma roundPositive_nonneg: "0 \<le> q \<Longrightarrow> 0 \<le> roundPositive q"
  unfolding roundPositive_def Let_def
  using pow2_pos by (intro mult_nonneg_nonneg) (simp_all add: roundEven_nonneg less_imp_le)

lemma toDouble_nonpos: "q \<le> 0 \<Longrightarrow> toDouble q \<le> 0"
  using roundPositive_nonneg [of "- q"] by (simp add: toDouble_def)

lemma toDouble_nonneg: "0 \<le> q \<Longrightarrow> 0 \<le> toDouble q"
  using roundPositive_nonneg [of q] by (simp add: toDouble_def)

lemma roundPositive_error:
  assumes n: "pow2 (- 1022) \<le> q"
  shows "\<bar>roundPositive q - q\<bar> \<le> q * pow2 (- 53)"
proof -
  have q: "0 < q" using n pow2_pos [of "- 1022"] by linarith
  define k where "k = floorLog2 q"
  from floorLog2_bounds [OF q] have lo: "pow2 k \<le> q" and hi: "q < pow2 (k + 1)"
    by (simp_all add: k_def)
  have "- 1022 < k + 1"
  proof (rule ccontr)
    assume "\<not> - 1022 < k + 1"
    then have "pow2 (k + 1) \<le> pow2 (- 1022)" by (intro pow2_mono) simp
    with hi n show False by linarith
  qed
  then have e: "max (k - 52) (- 1074) = k - 52" by simp
  define m where "m = roundEven (q / pow2 (k - 52))"
  have r: "roundPositive q = of_int m * pow2 (k - 52)"
    by (simp add: roundPositive_def Let_def k_def [symmetric] e m_def)
  have p: "0 < pow2 (k - 52)" by (rule pow2_pos)
  have "\<bar>of_int m - q / pow2 (k - 52)\<bar> \<le> 1 / 2"
    unfolding m_def by (rule roundEven_error)
  then have "\<bar>of_int m - q / pow2 (k - 52)\<bar> * pow2 (k - 52) \<le> 1 / 2 * pow2 (k - 52)"
    using p by (intro mult_right_mono) simp_all
  moreover have "\<bar>of_int m - q / pow2 (k - 52)\<bar> * pow2 (k - 52)
                  = \<bar>of_int m * pow2 (k - 52) - q\<bar>"
  proof -
    have "\<bar>of_int m - q / pow2 (k - 52)\<bar> * pow2 (k - 52)
          = \<bar>(of_int m - q / pow2 (k - 52)) * pow2 (k - 52)\<bar>"
      using p by (simp add: abs_mult)
    also have "(of_int m - q / pow2 (k - 52)) * pow2 (k - 52) = of_int m * pow2 (k - 52) - q"
      using p by (simp add: left_diff_distrib)
    finally show ?thesis .
  qed
  ultimately have 1: "\<bar>roundPositive q - q\<bar> \<le> pow2 (k - 52) / 2"
    by (simp add: r)
  have "pow2 (k - 52) / 2 = pow2 k * pow2 (- 53)"
    by (simp add: pow2_powi power_int_diff power_int_minus field_simps)
  also have "\<dots> \<le> q * pow2 (- 53)"
    using lo pow2_pos [of "- 53"] by (intro mult_right_mono) simp_all
  finally show ?thesis using 1 by linarith
qed

lemma toDouble_error:
  assumes "pow2 (- 1022) \<le> q"
  shows "\<bar>toDouble q - q\<bar> \<le> q * pow2 (- 53)"
proof -
  have "0 < q" using assms pow2_pos [of "- 1022"] by linarith
  then show ?thesis
    using roundPositive_error [OF assms] by (simp add: toDouble_def)
qed


lemma specTotalHours_error:
  "\<bar>specTotalHours ci co bs - specExactHours ci co bs\<bar> \<le> specExactHours ci co bs / 2 ^ 53"
proof -
  define ms where "ms = (co - ci) - sum_list (map (specBreakMs co) bs)"
  define q :: rat where "q = of_int ms / 3600000"
  have s: "specTotalHours ci co bs = max 0 (toDouble q)"
    by (simp add: specTotalHours_def ddiv_def ms_def q_def)
  have x: "specExactHours ci co bs = max 0 q"
    by (simp add: specExactHours_def ms_def q_def)
  show ?thesis
  proof (cases "ms \<le> 0")
    case True
    then have "q \<le> 0" by (simp add: q_def divide_le_0_iff)
    with toDouble_nonpos [of q] show ?thesis by (simp add: s x)
  next
    case False
    then have "1 \<le> ms" by simp
    then have "(1::rat) \<le> of_int ms" by simp
    then have lo: "1 / 3600000 \<le> q" by (simp add: q_def divide_right_mono)
    have "pow2 (- 1022) \<le> pow2 (- 22)" by (rule pow2_mono) simp
    also have "\<dots> \<le> 1 / 3600000" by (simp add: pow2_def)
    finally have n: "pow2 (- 1022) \<le> q" using lo by simp
    have q: "0 \<le> q" using lo by simp
    from toDouble_error [OF n] toDouble_nonneg [OF q] q show ?thesis
      by (simp add: s x pow2_def)
  qed
qed

section \<open>Payroll: the entry of one employee\<close>

text \<open>
  Claim C1. The hours of an employee for a month are those of the checked-out entries
  dated within the month; regular and overtime hours and the pay follow from them
  (\<open>payrollEntryFor_fields\<close>). The code selects the entries by comparing \<open>new Date(log.date)\<close>
  with \<open>startOfMonth(new Date(month + '-01'))\<close> and the end of that month. The date-only
  string is midnight UTC, the month taken around it is the local one: on a host west of
  UTC, midnight UTC of 1 January is still December, and the run for January 2024 pays
  Alice's 7 hours of December instead of her 50 hours of January. On a host east of UTC
  the same run pays the 50 hours, as do the specification's selection and
  \<open>getMonthlyHours\<close>, which reads the month off the date string. With the right entries
  selected the amounts are those of the specification: of Alice and Bob, who both
  worked 90 hours against a target of 80, Alice still holds a comp leave and is paid 80
  regular hours and no overtime, Bob holds none and is paid 80 regular hours and 10 hours
  of overtime at his multiplier of 1.25.
\<close>

theorem processMonth_window_evaluation:
  "monthStartOf ex_losAngeles ''2024-01'' = Some 1701417600000
   \<and> monthEndOf ex_losAngeles ''2024-01'' = Some 1704095999999
   \<and> map tl_date (monthLogs ex_losAngeles ''2024-01'' ex_winter ex_alice) = [''2023-12-15'']
   \<and> map (\<lambda>p. (pe_employeeId p, month p, regularHours p, overtimeHours p, totalPay p))
        (payrollEntries (run (handleProcessPayroll ex_losAngeles ex_carol 77 ''2024-01'') ex_winter))
      = [(''emp_1'', ''2024-01'', 7, 0, 35000)]
   \<and> specMonthHours ''2024-01'' ex_winter ex_alice = 50
   \<and> getMonthlyHours ''2024-01'' ex_winter ''emp_1'' = 50
   \<and> map tl_date (monthLogs ex_karachi ''2024-01'' ex_winter ex_alice) = [''2024-01-15'']
   \<and> map (\<lambda>p. (pe_employeeId p, month p, regularHours p, overtimeHours p, totalPay p))
        (payrollEntries (run (handleProcessPayroll ex_karachi ex_carol 77 ''2024-01'') ex_winter))
      = [(''emp_1'', ''2024-01'', 50, 0, 250000)]
   \<and> map (\<lambda>p. (pe_employeeId p, regularHours p, overtimeHours p, regularPay p,
                 overtimePay p, totalPay p))
        (payrollEntries (run (handleProcessPayroll ex_karachi ex_carol 77 ''2024-01'') ex_january))
      = [(''emp_1'', 80, 0, 400000, 0, 400000),
         (''emp_2'', 80, 10, 400000, 62500, 462500),
         (''emp_9'', 0, 0, 0, 0, 0)]
   \<and> map (\<lambda>p. (pe_employeeId p, regularHours p, overtimeHours p, regularPay p,
                 overtimePay p, totalPay p))
        (payrollEntries
           (run (handleProcessPayroll ex_losAngeles ex_carol 77 ''2024-01'') ex_january))
      = [(''emp_1'', 57, 0, 285000, 0, 285000),
         (''emp_2'', 0, 0, 0, 0, 0),
         (''emp_9'', 0, 0, 0, 0, 0)]"
proof -
  have la: "monthLogs ex_losAngeles ''2024-01'' ex_winter ex_alice
              = [ex_log ''log_1'' ''emp_1'' ''2023-12-15'' (Some 1) 7]"
    by (simp add: monthLogs_def monthStartOf_def monthEndOf_def dateGe_def dateLe_def ex_defs)
  have kh: "monthLogs ex_karachi ''2024-01'' ex_winter ex_alice
              = [ex_log ''log_2'' ''emp_1'' ''2024-01-15'' (Some 1) 50]"
    by (simp add: monthLogs_def monthStartOf_def monthEndOf_def dateGe_def dateLe_def ex_defs)
  have e: "employees ex_winter = [ex_alice] \<and> payrollEntries ex_winter = []
           \<and> overtimeSettings ex_winter = []"
    by (simp add: ex_defs)
  have a: "monthlyHourTarget ex_alice = 80 \<and> hourlyRate ex_alice = 5000
           \<and> emp_id ex_alice = ''emp_1''"
    by (simp add: ex_defs)
  have pl: "map (\<lambda>p. (pe_employeeId p, month p, regularHours p, overtimeHours p, totalPay p))
        (payrollEntries (run (handleProcessPayroll ex_losAngeles ex_carol 77 ''2024-01'') ex_winter))
      = [(''emp_1'', ''2024-01'', 7, 0, 35000)]"
    by (simp add: run_def handleProcessPayroll_def newPayrollEntries_def hasPayroll_def
          payrollEntryFor_def Let_def la e a ex_log_def multiplierOrDefault_def
          dadd_def dsub_def dmul_def double_values)
  have pk: "map (\<lambda>p. (pe_employeeId p, month p, regularHours p, overtimeHours p, totalPay p))
        (payrollEntries (run (handleProcessPayroll ex_karachi ex_carol 77 ''2024-01'') ex_winter))
      = [(''emp_1'', ''2024-01'', 50, 0, 250000)]"
    by (simp add: run_def handleProcessPayroll_def newPayrollEntries_def hasPayroll_def
          payrollEntryFor_def Let_def kh e a ex_log_def multiplierOrDefault_def
          dadd_def dsub_def dmul_def double_values)
  have sp: "specMonthHours ''2024-01'' ex_winter ex_alice = 50"
    by (simp add: specMonthHours_def specInMonth_def ex_defs dadd_def double_values)
  have gm: "getMonthlyHours ''2024-01'' ex_winter ''emp_1'' = 50"
    by (simp add: getMonthlyHours_def ex_defs dadd_def double_values)
  have jk': "monthLogs ex_karachi ''2024-01'' ex_january ex_alice
               = [ex_log ''log_1'' ''emp_1'' ''2024-01-01'' (Some 1) 50,
                  ex_log ''log_3'' ''emp_1'' ''2024-01-31'' (Some 1) 40]
             \<and> monthLogs ex_karachi ''2024-01'' ex_january ex_bob
               = [ex_log ''log_2'' ''emp_2'' ''2024-01-15'' (Some 1) 60,
                  ex_log ''log_7'' ''emp_2'' ''2024-01-31'' (Some 1) 30]
             \<and> monthLogs ex_karachi ''2024-01'' ex_january ex_carol = []"
    by (simp add: monthLogs_def monthStartOf_def monthEndOf_def dateGe_def dateLe_def ex_defs)
  have jl': "monthLogs ex_losAngeles ''2024-01'' ex_january ex_alice
               = [ex_log ''log_1'' ''emp_1'' ''2024-01-01'' (Some 1) 50,
                  ex_log ''log_4'' ''emp_1'' ''2023-12-31'' (Some 1) 7]
             \<and> monthLogs ex_losAngeles ''2024-01'' ex_january ex_bob = []
             \<and> monthLogs ex_losAngeles ''2024-01'' ex_january ex_carol = []"
    by (simp add: monthLogs_def monthStartOf_def monthEndOf_def dateGe_def dateLe_def ex_defs)
  have je: "employees ex_january = [ex_alice, ex_bob, ex_carol] \<and> payrollEntries ex_january = []
           \<and> overtimeSettings ex_january
               = [\<lparr> os_employeeId = ''emp_2'', overtimeMultiplier = 5 / 4 \<rparr>]"
    by (simp add: ex_january_def ex_empty_def)
  have ids: "emp_id ex_alice = ''emp_1'' \<and> emp_id ex_bob = ''emp_2'' \<and> emp_id ex_carol = ''emp_9''"
    by (simp add: ex_defs)
  have fs: "monthlyHourTarget ex_alice = 80 \<and> hourlyRate ex_alice = 5000
            \<and> compLeavesEarned ex_alice = 1 \<and> compLeavesUsed ex_alice = 0
            \<and> monthlyHourTarget ex_bob = 80 \<and> hourlyRate ex_bob = 5000
            \<and> compLeavesEarned ex_bob = 1 \<and> compLeavesUsed ex_bob = 1
            \<and> monthlyHourTarget ex_carol = 100 \<and> hourlyRate ex_carol = 8000
            \<and> compLeavesEarned ex_carol = 0 \<and> compLeavesUsed ex_carol = 0"
    by (simp add: ex_alice_def ex_bob_def ex_carol_def)
  have qk: "map (\<lambda>p. (pe_employeeId p, regularHours p, overtimeHours p, regularPay p,
                 overtimePay p, totalPay p))
        (payrollEntries (run (handleProcessPayroll ex_karachi ex_carol 77 ''2024-01'') ex_january))
      = [(''emp_1'', 80, 0, 400000, 0, 400000),
         (''emp_2'', 80, 10, 400000, 62500, 462500),
         (''emp_9'', 0, 0, 0, 0, 0)]"
    by (simp add: run_def handleProcessPayroll_def newPayrollEntries_def hasPayroll_def
          payrollEntryFor_def Let_def jk' je ids fs ex_log_def multiplierOrDefault_def
          dadd_def dsub_def dmul_def double_values double_values_january)
  have ql: "map (\<lambda>p. (pe_employeeId p, regularHours p, overtimeHours p, regularPay p,
                 overtimePay p, totalPay p))
        (payrollEntries
           (run (handleProcessPayroll ex_losAngeles ex_carol 77 ''2024-01'') ex_january))
      = [(''emp_1'', 57, 0, 285000, 0, 285000),
         (''emp_2'', 0, 0, 0, 0, 0),
         (''emp_9'', 0, 0, 0, 0, 0)]"
    by (simp add: run_def handleProcessPayroll_def newPayrollEntries_def hasPayroll_def
          payrollEntryFor_def Let_def jl' je ids fs ex_log_def multiplierOrDefault_def
          dadd_def dsub_def dmul_def double_values double_values_january)
  from ex_winter_window la kh pl pk sp gm qk ql show ?thesis
    by (simp add: ex_log_def)
qed

section \<open>Payroll: one entry per employee and month\<close>

text \<open>
  Claim C2. A run emits entries exactly for the employees that have no entry for the
  month, one each, all for that month; employees that have one are skipped. After a
  successful run every further run for the month, whoever starts it and whenever,
  reports that the payroll is already processed and leaves the state as it is, so that
  running twice gives the same payroll entries as running once. The same report, without
  a state change, is given whenever every employee already has an entry. With pairwise
  distinct employee ids, a run keeps the pairs of employee id and month of the payroll
  entries pairwise distinct.
\<close>

theorem processMonth_idempotent:
  "map (\<lambda>p. (pe_employeeId p, month p)) (newPayrollEntries lib employee now m state)
     = map (\<lambda>emp. (emp_id emp, m))
         (filter (\<lambda>emp. \<not> hasPayroll state m emp) (employees state))
   \<and> (\<forall>state'. handleProcessPayroll lib employee now m state = Inr state' \<longrightarrow>
        payrollEntries state' = payrollEntries state @ newPayrollEntries lib employee now m state
        \<and> (\<forall>lib' employee' now'.
              handleProcessPayroll lib' employee' now' m state' = Inl PayrollAlreadyProcessed
              \<and> run (handleProcessPayroll lib' employee' now' m) state' = state'))
   \<and> ((\<forall>emp \<in> set (employees state). hasPayroll state m emp) \<longrightarrow>
        handleProcessPayroll lib employee now m state = Inl PayrollAlreadyProcessed
        \<and> run (handleProcessPayroll lib employee now m) state = state)
   \<and> (\<forall>state'. distinct (map emp_id (employees state))
        \<and> distinct (map (\<lambda>p. (pe_employeeId p, month p)) (payrollEntries state))
        \<and> handleProcessPayroll lib employee now m state = Inr state' \<longrightarrow>
        distinct (map (\<lambda>p. (pe_employeeId p, month p)) (payrollEntries state')))
   \<and> (\<forall>lib' employee' now'.
        run (handleProcessPayroll lib' employee' now' m)
          (run (handleProcessPayroll lib employee now m) state)
        = run (handleProcessPayroll lib employee now m) state)"
proof (intro conjI allI impI)
  show "map (\<lambda>p. (pe_employeeId p, month p)) (newPayrollEntries lib employee now m state)
     = map (\<lambda>emp. (emp_id emp, m))
         (filter (\<lambda>emp. \<not> hasPayroll state m emp) (employees state))"
    by (rule new_keys)
next
  fix state'
  assume ok: "handleProcessPayroll lib employee now m state = Inr state'"
  show "payrollEntries state' = payrollEntries state @ newPayrollEntries lib employee now m state"
    by (simp add: handleProcessPayroll_Inr [OF ok])
  fix lib' employee' now'
  show s: "handleProcessPayroll lib' employee' now' m state' = Inl PayrollAlreadyProcessed"
    using ok by (rule second_run)
  show "run (handleProcessPayroll lib' employee' now' m) state' = state'"
    by (simp add: run_def s)
next
  assume a: "\<forall>emp \<in> set (employees state). hasPayroll state m emp"
  then show s: "handleProcessPayroll lib employee now m state = Inl PayrollAlreadyProcessed"
    by (rule all_processed)
  show "run (handleProcessPayroll lib employee now m) state = state"
    by (simp add: run_def s)
next
  fix state'
  assume "distinct (map emp_id (employees state))
        \<and> distinct (map (\<lambda>p. (pe_employeeId p, month p)) (payrollEntries state))
        \<and> handleProcessPayroll lib employee now m state = Inr state'"
  then show "distinct (map (\<lambda>p. (pe_employeeId p, month p)) (payrollEntries state'))"
    using unique_preserved by blast
next
  fix lib' employee' now'
  show "run (handleProcessPayroll lib' employee' now' m)
          (run (handleProcessPayroll lib employee now m) state)
        = run (handleProcessPayroll lib employee now m) state"
    by (rule run_twice)
qed

theorem processMonth_idempotent_witness:
  "distinct (map emp_id (employees ex_january))
   \<and> distinct (map (\<lambda>p. (pe_employeeId p, month p)) (payrollEntries ex_january))
   \<and> \<not> isl (handleProcessPayroll ex_lib ex_carol 77 ''2024-01'' ex_january)
   \<and> map (\<lambda>p. (pe_employeeId p, month p))
        (payrollEntries (run (handleProcessPayroll ex_lib ex_carol 77 ''2024-01'') ex_january))
      = [(''emp_1'', ''2024-01''), (''emp_2'', ''2024-01''), (''emp_9'', ''2024-01'')]
   \<and> handleProcessPayroll ex_lib ex_carol 99 ''2024-01''
        (run (handleProcessPayroll ex_lib ex_carol 77 ''2024-01'') ex_january)
      = Inl PayrollAlreadyProcessed
   \<and> run (handleProcessPayroll ex_lib ex_carol 99 ''2024-01'')
        (run (handleProcessPayroll ex_lib ex_carol 77 ''2024-01'') ex_january)
      = run (handleProcessPayroll ex_lib ex_carol 77 ''2024-01'') ex_january"
proof -
  have d: "distinct (map emp_id (employees ex_january))"
    by (simp add: ex_defs)
  have u: "distinct (map (\<lambda>p. (pe_employeeId p, month p)) (payrollEntries ex_january))"
    by (simp add: ex_defs)
  have f: "filter (\<lambda>emp. \<not> hasPayroll ex_january ''2024-01'' emp) (employees ex_january)
             = [ex_alice, ex_bob, ex_carol]"
    by (simp add: hasPayroll_def ex_defs)
  have ids: "map (\<lambda>emp. (emp_id emp, ''2024-01'')) [ex_alice, ex_bob, ex_carol]
             = [(''emp_1'', ''2024-01''), (''emp_2'', ''2024-01''), (''emp_9'', ''2024-01'')]"
    by (simp add: ex_defs)
  have old: "payrollEntries ex_january = []"
    by (simp add: ex_defs)
  have ok: "\<not> isl (handleProcessPayroll ex_lib ex_carol 77 ''2024-01'' ex_january)"
    by (simp add: handleProcessPayroll_def newPayrollEntries_def f)
  then obtain st where st: "handleProcessPayroll ex_lib ex_carol 77 ''2024-01'' ex_january = Inr st"
    by (cases "handleProcessPayroll ex_lib ex_carol 77 ''2024-01'' ex_january") simp_all
  then have r: "run (handleProcessPayroll ex_lib ex_carol 77 ''2024-01'') ex_january = st"
    by (simp add: run_def)
  note t = processMonth_idempotent [of ex_lib ex_carol 77 "''2024-01''" ex_january]
  from t have k: "map (\<lambda>p. (pe_employeeId p, month p))
                    (newPayrollEntries ex_lib ex_carol 77 ''2024-01'' ex_january)
     = map (\<lambda>emp. (emp_id emp, ''2024-01''))
         (filter (\<lambda>emp. \<not> hasPayroll ex_january ''2024-01'' emp) (employees ex_january))"
    by (rule conjunct1)
  from t st have p: "payrollEntries st = payrollEntries ex_january @
                       newPayrollEntries ex_lib ex_carol 77 ''2024-01'' ex_january"
    and s2: "handleProcessPayroll ex_lib ex_carol 99 ''2024-01'' st = Inl PayrollAlreadyProcessed"
    by blast+
  have keys: "map (\<lambda>p. (pe_employeeId p, month p)) (payrollEntries st)
      = [(''emp_1'', ''2024-01''), (''emp_2'', ''2024-01''), (''emp_9'', ''2024-01'')]"
    unfolding p old using k f ids by simp
  have r2: "run (handleProcessPayroll ex_lib ex_carol 99 ''2024-01'') st = st"
    by (simp add: run_def s2)
  from d u ok keys s2 r2 show ?thesis unfolding r by (intro conjI)
qed

section \<open>Check-out: the stored hours\<close>

text \<open>
  Claim C3. When a check-out succeeds, the entry of the employee and day stores the
  check-out time, the status checked-out, and as total hours the specification's
  \<open>max(0, (checkOut - checkIn) - \<Sigma> break durations)\<close> in fractional hours, a break still
  open being counted up to the check-out time: the milliseconds are exact, their
  quotient by the milliseconds of an hour is the nearest JavaScript number, which differs
  from the exact number of hours by at most the fraction \<open>1 / 2 ^ 53\<close> of it. The value is
  never negative, and it is the same for every reordering of the breaks.
\<close>

theorem checkOut_totalHours:
  assumes ok: "handleCheckOut employee today now state = Inr state'"
    and tl: "todayTimeLog employee today state = Some tlog"
    and ci: "checkIn tlog = Some checkInTime"
  shows "todayTimeLog employee today state' =
           Some (tlog\<lparr> checkOut := Some now,
                       totalHours := specTotalHours checkInTime now (breaks tlog),
                       tl_status := CheckedOut \<rparr>)
         \<and> 0 \<le> specTotalHours checkInTime now (breaks tlog)
         \<and> \<bar>specTotalHours checkInTime now (breaks tlog)
              - specExactHours checkInTime now (breaks tlog)\<bar>
             \<le> specExactHours checkInTime now (breaks tlog) / 2 ^ 53
         \<and> (\<forall>bs. mset bs = mset (breaks tlog) \<longrightarrow>
               checkOutTotalHours checkInTime now bs
               = checkOutTotalHours checkInTime now (breaks tlog))"
proof -
  from handleCheckOut_Inr [OF ok] tl
  have st: "state' = checkOutUpdater employee now tlog state" by auto
  let ?f = "\<lambda>log. if tl_id log = tl_id tlog
                 then log\<lparr> checkOut := Some now,
                           totalHours := checkOutTotalHours (dateOfCheckIn (checkIn tlog)) now
                                           (breaks tlog),
                           tl_status := CheckedOut \<rparr>
                 else log"
  have f: "find (\<lambda>log. tl_employeeId log = emp_id employee \<and> tl_date log = today)
             (timeLogs state) = Some tlog"
    using tl by (simp add: todayTimeLog_def)
  have "find (\<lambda>log. tl_employeeId log = emp_id employee \<and> tl_date log = today)
          (map ?f (timeLogs state)) = Some (?f tlog)"
    by (rule find_map_preserved [OF f]) simp
  then have "todayTimeLog employee today state' =
           Some (tlog\<lparr> checkOut := Some now,
                       totalHours := specTotalHours checkInTime now (breaks tlog),
                       tl_status := CheckedOut \<rparr>)"
    by (simp add: todayTimeLog_def st timeLogs_checkOutUpdater ci dateOfCheckIn_def
          checkOutTotalHours_spec)
  moreover have "0 \<le> specTotalHours checkInTime now (breaks tlog)"
    by (simp add: specTotalHours_def)
  moreover have "\<bar>specTotalHours checkInTime now (breaks tlog)
              - specExactHours checkInTime now (breaks tlog)\<bar>
             \<le> specExactHours checkInTime now (breaks tlog) / 2 ^ 53"
    by (rule specTotalHours_error)
  moreover have "\<forall>bs. mset bs = mset (breaks tlog) \<longrightarrow>
               checkOutTotalHours checkInTime now bs
               = checkOutTotalHours checkInTime now (breaks tlog)"
    unfolding checkOutTotalHours_spec by (intro allI impI) (rule specTotalHours_mset)
  ultimately show ?thesis by (intro conjI)
qed

theorem checkOut_totalHours_witness:
  "handleCheckOut ex_alice ex_day 9000000 ex_working
       = Inr (checkOutUpdater ex_alice 9000000 ex_aliceLog ex_working)
   \<and> todayTimeLog ex_alice ex_day ex_working = Some ex_aliceLog
   \<and> checkIn ex_aliceLog = Some 0
   \<and> todayTimeLog ex_alice ex_day (checkOutUpdater ex_alice 9000000 ex_aliceLog ex_working)
       = Some (ex_aliceLog\<lparr> checkOut := Some 9000000, totalHours := 3 / 2,
                             tl_status := CheckedOut \<rparr>)
   \<and> checkOutTotalHours 0 4000 [] = 5124095576030431 / 4611686018427387904
   \<and> specExactHours 0 4000 [] = 1 / 900"
proof -
  have fl: "\<lfloor>1152921504606846976 / 225 :: rat\<rfloor> = 5124095576030431"
    by (rule floor_unique) simp_all
  have d: "toDouble (1 / 900) = 5124095576030431 / 4611686018427387904"
    by (simp add: double_eval fl)
  have "checkOutTotalHours 0 4000 [] = max 0 (toDouble (1 / 900))"
    by (simp add: checkOutTotalHours_def ddiv_def)
  then have r: "checkOutTotalHours 0 4000 [] = 5124095576030431 / 4611686018427387904"
    by (simp add: d)
  have ok: "handleCheckOut ex_alice ex_day 9000000 ex_working
       = Inr (checkOutUpdater ex_alice 9000000 ex_aliceLog ex_working)"
    by (simp add: handleCheckOut_def todayTimeLog_def myTasks_def ex_working_def ex_empty_def
        ex_aliceLog_def ex_aliceTask_def ex_alice_def ex_day_def)
  have tl: "todayTimeLog ex_alice ex_day ex_working = Some ex_aliceLog"
    by (simp add: todayTimeLog_def ex_working_def ex_empty_def
        ex_aliceLog_def ex_alice_def ex_day_def)
  have ci: "checkIn ex_aliceLog = Some 0"
    by (simp add: ex_aliceLog_def)
  have h: "toDouble (3 / 2) = 3 / 2"
    by (simp add: double_eval)
  have "specTotalHours 0 9000000 (breaks ex_aliceLog) = max 0 (toDouble (3 / 2))"
    by (simp add: specTotalHours_def specBreakMs_def ex_aliceLog_def ddiv_def)
  then have v: "specTotalHours 0 9000000 (breaks ex_aliceLog) = 3 / 2"
    by (simp add: h)
  have x: "specExactHours 0 4000 [] = 1 / 900"
    by (simp add: specExactHours_def)
  from checkOut_totalHours [OF ok tl ci] ok tl ci v r x show ?thesis
    by simp
qed

section \<open>Check-out: preconditions\<close>

text \<open>
  Claim C4. A check-out fails, and the state stays as it was, when the employee has no
  entry for the day or the entry is already checked out (both reported as an invalid
  check-out attempt). It fails whenever no task of the employee is logged for the day,
  with the tasks-required report when the entry is open. Once a task has been added for
  the day, the same check-out attempt succeeds.
\<close>

theorem checkOut_preconditions:
  "(todayTimeLog employee today state = None \<longrightarrow>
      handleCheckOut employee today now state = Inl InvalidCheckOut)
   \<and> (\<forall>tlog. todayTimeLog employee today state = Some tlog \<and> checkOut tlog \<noteq> None \<longrightarrow>
      handleCheckOut employee today now state = Inl InvalidCheckOut)
   \<and> (myTasks employee today state = [] \<longrightarrow> isl (handleCheckOut employee today now state))
   \<and> (\<forall>tlog. todayTimeLog employee today state = Some tlog \<and> checkOut tlog = None
         \<and> myTasks employee today state = [] \<longrightarrow>
      handleCheckOut employee today now state = Inl TasksRequired
      \<and> (\<forall>now' descr hours.
            handleCheckOut employee today now
              (handleAddTask employee today now' descr hours state)
            = Inr (checkOutUpdater employee now tlog
                     (handleAddTask employee today now' descr hours state))))
   \<and> (isl (handleCheckOut employee today now state) \<longrightarrow>
        run (handleCheckOut employee today now) state = state)"
proof (intro conjI allI impI)
  assume "todayTimeLog employee today state = None"
  then show "handleCheckOut employee today now state = Inl InvalidCheckOut"
    by (simp add: handleCheckOut_def)
next
  fix tlog
  assume "todayTimeLog employee today state = Some tlog \<and> checkOut tlog \<noteq> None"
  then show "handleCheckOut employee today now state = Inl InvalidCheckOut"
    by (simp add: handleCheckOut_def)
next
  assume "myTasks employee today state = []"
  then show "isl (handleCheckOut employee today now state)"
    by (simp add: handleCheckOut_def split: option.split)
next
  fix tlog
  assume "todayTimeLog employee today state = Some tlog \<and> checkOut tlog = None
         \<and> myTasks employee today state = []"
  then show "handleCheckOut employee today now state = Inl TasksRequired"
    by (simp add: handleCheckOut_def)
next
  fix tlog now' descr hours
  assume a: "todayTimeLog employee today state = Some tlog \<and> checkOut tlog = None
         \<and> myTasks employee today state = []"
  show "handleCheckOut employee today now
              (handleAddTask employee today now' descr hours state)
            = Inr (checkOutUpdater employee now tlog
                     (handleAddTask employee today now' descr hours state))"
    using a myTasks_handleAddTask [of employee today now' descr hours state]
    by (simp add: handleCheckOut_def todayTimeLog_handleAddTask)
next
  assume "isl (handleCheckOut employee today now state)"
  then show "run (handleCheckOut employee today now) state = state"
    by (cases "handleCheckOut employee today now state") (simp_all add: run_def)
qed

theorem checkOut_preconditions_witness:
  "todayTimeLog ex_alice ex_day ex_empty = None
   \<and> handleCheckOut ex_alice ex_day 9000000 ex_empty = Inl InvalidCheckOut
   \<and> todayTimeLog ex_alice ex_day ex_done = Some (ex_aliceLog\<lparr> checkOut := Some 9000000 \<rparr>)
   \<and> handleCheckOut ex_alice ex_day 9000000 ex_done = Inl InvalidCheckOut
   \<and> todayTimeLog ex_alice ex_day ex_noTasks = Some ex_aliceLog
   \<and> checkOut ex_aliceLog = None
   \<and> myTasks ex_alice ex_day ex_noTasks = []
   \<and> handleCheckOut ex_alice ex_day 9000000 ex_noTasks = Inl TasksRequired
   \<and> run (handleCheckOut ex_alice ex_day 9000000) ex_noTasks = ex_noTasks
   \<and> handleCheckOut ex_alice ex_day 9000000
         (handleAddTask ex_alice ex_day 8000000 (utf16 ''Reports'') 2 ex_noTasks)
       = Inr (checkOutUpdater ex_alice 9000000 ex_aliceLog
                (handleAddTask ex_alice ex_day 8000000 (utf16 ''Reports'') 2 ex_noTasks))"
proof -
  have a: "todayTimeLog ex_alice ex_day ex_empty = None"
    by (simp add: todayTimeLog_def ex_defs)
  have b: "todayTimeLog ex_alice ex_day ex_done = Some (ex_aliceLog\<lparr> checkOut := Some 9000000 \<rparr>)
           \<and> checkOut (ex_aliceLog\<lparr> checkOut := Some 9000000 \<rparr>) \<noteq> None"
    by (simp add: todayTimeLog_def ex_defs)
  have c: "todayTimeLog ex_alice ex_day ex_noTasks = Some ex_aliceLog
           \<and> checkOut ex_aliceLog = None \<and> myTasks ex_alice ex_day ex_noTasks = []"
    by (simp add: todayTimeLog_def myTasks_def ex_defs)
  from checkOut_preconditions [of ex_alice ex_day ex_empty 9000000] a
  have 1: "handleCheckOut ex_alice ex_day 9000000 ex_empty = Inl InvalidCheckOut"
    by blast
  from checkOut_preconditions [of ex_alice ex_day ex_done 9000000] b
  have 2: "handleCheckOut ex_alice ex_day 9000000 ex_done = Inl InvalidCheckOut"
    by blast
  from checkOut_preconditions [of ex_alice ex_day ex_noTasks 9000000] c
  have 3: "handleCheckOut ex_alice ex_day 9000000 ex_noTasks = Inl TasksRequired"
    and 4: "handleCheckOut ex_alice ex_day 9000000
         (handleAddTask ex_alice ex_day 8000000 (utf16 ''Reports'') 2 ex_noTasks)
       = Inr (checkOutUpdater ex_alice 9000000 ex_aliceLog
                (handleAddTask ex_alice ex_day 8000000 (utf16 ''Reports'') 2 ex_noTasks))"
    by blast+
  from 3 checkOut_preconditions [of ex_alice ex_day ex_noTasks 9000000]
  have 5: "run (handleCheckOut ex_alice ex_day 9000000) ex_noTasks = ex_noTasks"
    by simp
  from a b c 1 2 3 4 5 show ?thesis by simp
qed

section \<open>Leave decisions: the comp-leave counter\<close>

text \<open>
  Claim C5. For a pending leave request (the one its id designates, of an employee on
  record), approving it adds exactly 1 to the used comp leaves of the requesting
  employee, whatever the start and end dates of the request are, and rejecting it leaves
  the employees, hence both counters, unchanged. Either way the request gets the status
  approved or rejected, the reviewer's id and the time of the review.
\<close>

theorem approveLeave_counters:
  assumes lv: "find (\<lambda>l. lr_id l = leaveId) (leaveRequests state) = Some leave"
    and pend: "lr_status leave = LeavePending"
    and em: "find (\<lambda>e. emp_id e = lr_employeeId leave) (employees state) = Some emp"
  shows "(\<exists>state'. handleApproveLeave reviewer now leaveId True comment state = Inr state'
            \<and> employees state' =
                 map (\<lambda>e. if emp_id e = lr_employeeId leave
                           then e\<lparr> compLeavesUsed := compLeavesUsed e + 1 \<rparr> else e)
                   (employees state)
            \<and> find (\<lambda>e. emp_id e = lr_employeeId leave) (employees state')
                 = Some (emp\<lparr> compLeavesUsed := compLeavesUsed emp + 1 \<rparr>)
            \<and> find (\<lambda>l. lr_id l = leaveId) (leaveRequests state')
                 = Some (leave\<lparr> lr_status := LeaveApproved,
                                  lr_reviewedBy := Some (emp_id reviewer),
                                  lr_reviewedAt := Some now, reviewComment := comment \<rparr>))
       \<and> (\<exists>state'. handleApproveLeave reviewer now leaveId False comment state = Inr state'
            \<and> employees state' = employees state
            \<and> find (\<lambda>l. lr_id l = leaveId) (leaveRequests state')
                 = Some (leave\<lparr> lr_status := LeaveRejected,
                                  lr_reviewedBy := Some (emp_id reviewer),
                                  lr_reviewedAt := Some now, reviewComment := comment \<rparr>))"
proof -
  have idl: "lr_id leave = leaveId" using find_Some_P [OF lv] .
  have fl: "\<And>approved. find (\<lambda>l. lr_id l = leaveId)
          (map (\<lambda>req. if lr_id req = leaveId
                       then req\<lparr> lr_status := (if approved then LeaveApproved else LeaveRejected),
                                 lr_reviewedBy := Some (emp_id reviewer),
                                 lr_reviewedAt := Some now, reviewComment := comment \<rparr>
                       else req) (leaveRequests state))
        = Some (leave\<lparr> lr_status := (if approved then LeaveApproved else LeaveRejected),
                                 lr_reviewedBy := Some (emp_id reviewer),
                                 lr_reviewedAt := Some now, reviewComment := comment \<rparr>)"
    using find_map_preserved [OF lv, where f = "\<lambda>req. if lr_id req = leaveId
                       then req\<lparr> lr_status := (if approved then LeaveApproved else LeaveRejected),
                                 lr_reviewedBy := Some (emp_id reviewer),
                                 lr_reviewedAt := Some now, reviewComment := comment \<rparr>
                       else req" for approved]
    by (simp add: idl)
  have fe: "find (\<lambda>e. emp_id e = lr_employeeId leave)
          (map (\<lambda>e. if emp_id e = lr_employeeId leave
                     then e\<lparr> compLeavesUsed := compLeavesUsed e + 1 \<rparr> else e) (employees state))
        = Some (emp\<lparr> compLeavesUsed := compLeavesUsed emp + 1 \<rparr>)"
    using find_map_preserved [OF em, where f = "\<lambda>e. if emp_id e = lr_employeeId leave
                     then e\<lparr> compLeavesUsed := compLeavesUsed e + 1 \<rparr> else e"]
      find_Some_P [OF em]
    by simp
  show ?thesis
    using fl [of True] fl [of False] fe
    by (simp add: handleApproveLeave_found [OF lv em])
qed

theorem approveLeave_counters_witness:
  "find (\<lambda>l. lr_id l = ''leave_7'') (leaveRequests ex_leaveState) = Some ex_leave
   \<and> lr_status ex_leave = LeavePending
   \<and> find (\<lambda>e. emp_id e = lr_employeeId ex_leave) (employees ex_leaveState) = Some ex_alice
   \<and> (\<exists>state'. handleApproveLeave ex_carol 900 ''leave_7'' True None ex_leaveState = Inr state'
         \<and> find (\<lambda>e. emp_id e = ''emp_1'') (employees state')
              = Some (ex_alice\<lparr> compLeavesUsed := 1 \<rparr>))
   \<and> (\<exists>state'. handleApproveLeave ex_carol 900 ''leave_7'' False None ex_leaveState = Inr state'
         \<and> employees state' = [ex_alice, ex_bob, ex_carol])"
proof -
  have lv: "find (\<lambda>l. lr_id l = ''leave_7'') (leaveRequests ex_leaveState) = Some ex_leave"
    by (simp add: ex_defs)
  have pend: "lr_status ex_leave = LeavePending"
    by (simp add: ex_defs)
  have em: "find (\<lambda>e. emp_id e = lr_employeeId ex_leave) (employees ex_leaveState) = Some ex_alice"
    by (simp add: ex_defs)
  have v: "lr_employeeId ex_leave = ''emp_1'' \<and> compLeavesUsed ex_alice + 1 = 1
           \<and> employees ex_leaveState = [ex_alice, ex_bob, ex_carol]"
    by (simp add: ex_defs)
  from approveLeave_counters [OF lv pend em, of ex_carol 900 None] lv pend em v
  show ?thesis by auto
qed

section \<open>Leave decisions: no second review\<close>

text \<open>
  Claim C6. A decision on a request that is already decided must fail and change nothing.
  \<open>handleApproveLeave\<close> does not look at the status of the request, and the review view
  checks it only when the request is selected. Carol selects Alice's pending request and
  approves it; a second decision on the same request, issued directly or from the
  selection made while it was pending, succeeds again: it turns the approved request
  into a rejected one, or counts a second used comp leave.
\<close>

theorem decide_decided_evaluation:
  "LeaveReviewView_review ex_leave = Some ex_leave
   \<and> map lr_status (leaveRequests (run (handleApproveLeave ex_carol 900 ''leave_7'' True None) ex_leaveState))
     = [LeaveApproved]
   \<and> map compLeavesUsed (employees (run (handleApproveLeave ex_carol 900 ''leave_7'' True None) ex_leaveState))
     = [1, 1, 0]
   \<and> \<not> isl (handleApproveLeave ex_carol 950 ''leave_7'' False None
               (run (handleApproveLeave ex_carol 900 ''leave_7'' True None) ex_leaveState))
   \<and> map lr_status (leaveRequests (run (handleApproveLeave ex_carol 950 ''leave_7'' False None)
         (run (handleApproveLeave ex_carol 900 ''leave_7'' True None) ex_leaveState)))
     = [LeaveRejected]
   \<and> \<not> isl (LeaveReviewView_handleApprove ex_carol 950 (LeaveReviewView_review ex_leave) True []
               (run (handleApproveLeave ex_carol 900 ''leave_7'' True None) ex_leaveState))
   \<and> map compLeavesUsed (employees
         (run (LeaveReviewView_handleApprove ex_carol 950 (LeaveReviewView_review ex_leave) True [])
            (run (handleApproveLeave ex_carol 900 ''leave_7'' True None) ex_leaveState)))
     = [2, 1, 0]"
  by (simp add: run_def handleApproveLeave_def LeaveReviewView_review_def
        LeaveReviewView_handleApprove_def trim_def Let_def ex_defs)

section \<open>Leave requests: validation\<close>

text \<open>
  Claim C7, as stated, says that a request whose end date lies before its start date is
  refused. Neither the form nor \<open>handleRequestLeave\<close> compares the two dates: such a
  request is created like any other.
\<close>

theorem requestLeave_range_counterexample:
  "dateLess ''2024-02-01'' ''2024-02-10''
   \<and> \<not> isl (LeaveManagementEmployee_handleSubmit ex_alice 100 ''2024-02-10'' ''2024-02-01''
              (utf16 ''Trip'') ex_empty)
   \<and> map (\<lambda>r. (startDate r, endDate r, lr_status r))
        (leaveRequests (run (LeaveManagementEmployee_handleSubmit ex_alice 100 ''2024-02-10''
                               ''2024-02-01'' (utf16 ''Trip'')) ex_empty))
      = [(''2024-02-10'', ''2024-02-01'', LeavePending)]"
  by (simp add: LeaveManagementEmployee_handleSubmit_def handleRequestLeave_def Let_def
        run_def trim_def isSpace_def utf16_def ex_defs)

text \<open>
  Claim C7, amended. The form creates no request, and reports nothing, when the start
  date or the end date is empty or the reason is blank (only white space of JavaScript,
  which includes the no-break space and the other Unicode spaces). For every
  other input, whatever the order of the two dates, it appends exactly one new request
  with status pending, the trimmed reason and the time of the request, together with
  one audit entry.
\<close>

theorem requestLeave_validation:
  "LeaveManagementEmployee_handleSubmit employee now start end' rsn state =
     (if start = [] \<or> end' = [] \<or> (\<forall>c \<in> set rsn. isSpace c) then Inl SilentReturn
      else Inr (state\<lparr> leaveRequests := leaveRequests state @
                        [\<lparr> lr_id = ''leave_'' @ showInt now, lr_employeeId = emp_id employee,
                           startDate = start, endDate = end', reason = trim rsn,
                           lr_status = LeavePending, requestedAt = now,
                           lr_reviewedBy = None, lr_reviewedAt = None,
                           reviewComment = None \<rparr>],
                      auditLogs := auditLogs state @
                        [audit employee now ''Leave Request Created'' ''LeaveRequest''
                           (''leave_'' @ showInt now)] \<rparr>))"
  by (simp add: LeaveManagementEmployee_handleSubmit_def handleRequestLeave_def Let_def
        trim_empty_iff)

theorem requestLeave_validation_witness:
  "LeaveManagementEmployee_handleSubmit ex_alice 100 ''2024-02-01'' ''2024-02-14''
       [32, 160, 8195, 9] ex_empty
     = Inl SilentReturn
   \<and> trim [32, 160, 8195, 9] = []
   \<and> trim (utf16 '' Trip '') = utf16 ''Trip''
   \<and> map (\<lambda>r. (startDate r, endDate r, reason r, lr_status r, requestedAt r))
        (leaveRequests (run (LeaveManagementEmployee_handleSubmit ex_alice 100 ''2024-02-01''
                               ''2024-02-14'' (utf16 '' Trip '')) ex_empty))
      = [(''2024-02-01'', ''2024-02-14'', utf16 ''Trip'', LeavePending, 100)]"
proof -
  have b: "\<forall>c \<in> set [32, 160, 8195, 9]. isSpace c" by (simp add: isSpace_def)
  have nb: "\<not> (\<forall>c \<in> set (utf16 '' Trip ''). isSpace c)" by (simp add: isSpace_def utf16_def)
  have t: "trim (utf16 '' Trip '') = utf16 ''Trip'' \<and> trim [32, 160, 8195, 9] = []"
    by (simp add: trim_def isSpace_def utf16_def)
  have e: "leaveRequests ex_empty = []" by (simp add: ex_defs)
  from requestLeave_validation [of ex_alice 100 "''2024-02-01''" "''2024-02-14''"
          "[32, 160, 8195, 9]" ex_empty]
    requestLeave_validation [of ex_alice 100 "''2024-02-01''" "''2024-02-14''"
          "utf16 '' Trip ''" ex_empty]
    b nb t e
  show ?thesis by (simp add: run_def)
qed

section \<open>Deleting an employee\<close>

text \<open>
  Claim C8. When an employee \<open>E\<close> on record is deleted, no employee, time-log entry, task,
  leave request, payroll entry or overtime setting of \<open>E\<close> (a record whose employee id is
  \<open>E\<close>) remains in the state, and for every other employee the records of each
  collection are the same, in the same order, as before.
\<close>

theorem deleteEmployee_cascade:
  assumes "find (\<lambda>e. emp_id e = E) (employees state) = Some emp"
  shows "\<exists>state'. handleDeleteEmployee employee now E state = Inr state'
    \<and> (\<forall>e \<in> set (employees state'). emp_id e \<noteq> E)
    \<and> (\<forall>t \<in> set (timeLogs state'). tl_employeeId t \<noteq> E)
    \<and> (\<forall>t \<in> set (tasks state'). task_employeeId t \<noteq> E)
    \<and> (\<forall>l \<in> set (leaveRequests state'). lr_employeeId l \<noteq> E)
    \<and> (\<forall>p \<in> set (payrollEntries state'). pe_employeeId p \<noteq> E)
    \<and> (\<forall>s \<in> set (overtimeSettings state'). os_employeeId s \<noteq> E)
    \<and> (\<forall>X. X \<noteq> E \<longrightarrow>
          filter (\<lambda>e. emp_id e = X) (employees state') = filter (\<lambda>e. emp_id e = X) (employees state)
        \<and> filter (\<lambda>t. tl_employeeId t = X) (timeLogs state')
            = filter (\<lambda>t. tl_employeeId t = X) (timeLogs state)
        \<and> filter (\<lambda>t. task_employeeId t = X) (tasks state')
            = filter (\<lambda>t. task_employeeId t = X) (tasks state)
        \<and> filter (\<lambda>l. lr_employeeId l = X) (leaveRequests state')
            = filter (\<lambda>l. lr_employeeId l = X) (leaveRequests state)
        \<and> filter (\<lambda>p. pe_employeeId p = X) (payrollEntries state')
            = filter (\<lambda>p. pe_employeeId p = X) (payrollEntries state)
        \<and> filter (\<lambda>s. os_employeeId s = X) (overtimeSettings state')
            = filter (\<lambda>s. os_employeeId s = X) (overtimeSettings state))"
  unfolding handleDeleteEmployee_found [OF assms]
  by (simp add: filter_other)

theorem deleteEmployee_cascade_witness:
  "find (\<lambda>e. emp_id e = ''emp_1'') (employees ex_full) = Some ex_alice
   \<and> (\<exists>state'. handleDeleteEmployee ex_carol 500 ''emp_1'' ex_full = Inr state'
        \<and> (\<forall>t \<in> set (timeLogs state'). tl_employeeId t \<noteq> ''emp_1'')
        \<and> (\<forall>p \<in> set (payrollEntries state'). pe_employeeId p \<noteq> ''emp_1'')
        \<and> filter (\<lambda>t. tl_employeeId t = ''emp_2'') (timeLogs state')
            = [ex_log ''log_2'' ''emp_2'' ''2024-01-15'' (Some 1) 60,
               ex_log ''log_7'' ''emp_2'' ''2024-01-31'' (Some 1) 30]
        \<and> filter (\<lambda>p. pe_employeeId p = ''emp_2'') (payrollEntries state')
            = [ex_pay ''payroll_5_emp_2'' ''emp_2''])"
proof -
  have h: "find (\<lambda>e. emp_id e = ''emp_1'') (employees ex_full) = Some ex_alice"
    by (simp add: ex_defs)
  have v: "filter (\<lambda>t. tl_employeeId t = ''emp_2'') (timeLogs ex_full)
            = [ex_log ''log_2'' ''emp_2'' ''2024-01-15'' (Some 1) 60,
               ex_log ''log_7'' ''emp_2'' ''2024-01-31'' (Some 1) 30]
           \<and> filter (\<lambda>p. pe_employeeId p = ''emp_2'') (payrollEntries ex_full)
            = [ex_pay ''payroll_5_emp_2'' ''emp_2'']"
    by (simp add: ex_defs)
  have ne: "''emp_2'' \<noteq> ''emp_1''" by simp
  from deleteEmployee_cascade [OF h, of ex_carol 500]
  obtain state' where all: "handleDeleteEmployee ex_carol 500 ''emp_1'' ex_full = Inr state'
    \<and> (\<forall>e \<in> set (employees state'). emp_id e \<noteq> ''emp_1'')
    \<and> (\<forall>t \<in> set (timeLogs state'). tl_employeeId t \<noteq> ''emp_1'')
    \<and> (\<forall>t \<in> set (tasks state'). task_employeeId t \<noteq> ''emp_1'')
    \<and> (\<forall>l \<in> set (leaveRequests state'). lr_employeeId l \<noteq> ''emp_1'')
    \<and> (\<forall>p \<in> set (payrollEntries state'). pe_employeeId p \<noteq> ''emp_1'')
    \<and> (\<forall>s \<in> set (overtimeSettings state'). os_employeeId s \<noteq> ''emp_1'')
    \<and> (\<forall>X. X \<noteq> ''emp_1'' \<longrightarrow>
          filter (\<lambda>e. emp_id e = X) (employees state') = filter (\<lambda>e. emp_id e = X) (employees ex_full)
        \<and> filter (\<lambda>t. tl_employeeId t = X) (timeLogs state')
            = filter (\<lambda>t. tl_employeeId t = X) (timeLogs ex_full)
        \<and> filter (\<lambda>t. task_employeeId t = X) (tasks state')
            = filter (\<lambda>t. task_employeeId t = X) (tasks ex_full)
        \<and> filter (\<lambda>l. lr_employeeId l = X) (leaveRequests state')
            = filter (\<lambda>l. lr_employeeId l = X) (leaveRequests ex_full)
        \<and> filter (\<lambda>p. pe_employeeId p = X) (payrollEntries state')
            = filter (\<lambda>p. pe_employeeId p = X) (payrollEntries ex_full)
        \<and> filter (\<lambda>s. os_employeeId s = X) (overtimeSettings state')
            = filter (\<lambda>s. os_employeeId s = X) (overtimeSettings ex_full))" ..
  from all have ok: "handleDeleteEmployee ex_carol 500 ''emp_1'' ex_full = Inr state'"
    by (elim conjE)
  from all have a: "\<forall>t \<in> set (timeLogs state'). tl_employeeId t \<noteq> ''emp_1''"
    by (elim conjE)
  from all have b: "\<forall>p \<in> set (payrollEntries state'). pe_employeeId p \<noteq> ''emp_1''"
    by (elim conjE)
  from all have c: "\<forall>X. X \<noteq> ''emp_1'' \<longrightarrow>
          filter (\<lambda>e. emp_id e = X) (employees state') = filter (\<lambda>e. emp_id e = X) (employees ex_full)
        \<and> filter (\<lambda>t. tl_employeeId t = X) (timeLogs state')
            = filter (\<lambda>t. tl_employeeId t = X) (timeLogs ex_full)
        \<and> filter (\<lambda>t. task_employeeId t = X) (tasks state')
            = filter (\<lambda>t. task_employeeId t = X) (tasks ex_full)
        \<and> filter (\<lambda>l. lr_employeeId l = X) (leaveRequests state')
            = filter (\<lambda>l. lr_employeeId l = X) (leaveRequests ex_full)
        \<and> filter (\<lambda>p. pe_employeeId p = X) (payrollEntries state')
            = filter (\<lambda>p. pe_employeeId p = X) (payrollEntries ex_full)
        \<and> filter (\<lambda>s. os_employeeId s = X) (overtimeSettings state')
            = filter (\<lambda>s. os_employeeId s = X) (overtimeSettings ex_full)"
    by (elim conjE)
  from c [rule_format, OF ne]
  have t2: "filter (\<lambda>t. tl_employeeId t = ''emp_2'') (timeLogs state')
            = filter (\<lambda>t. tl_employeeId t = ''emp_2'') (timeLogs ex_full)"
    by (elim conjE)
  from c [rule_format, OF ne]
  have p2: "filter (\<lambda>p. pe_employeeId p = ''emp_2'') (payrollEntries state')
            = filter (\<lambda>p. pe_employeeId p = ''emp_2'') (payrollEntries ex_full)"
    by (elim conjE)
  from v have v1: "filter (\<lambda>t. tl_employeeId t = ''emp_2'') (timeLogs ex_full)
            = [ex_log ''log_2'' ''emp_2'' ''2024-01-15'' (Some 1) 60,
               ex_log ''log_7'' ''emp_2'' ''2024-01-31'' (Some 1) 30]"
    by (rule conjunct1)
  from v have v2: "filter (\<lambda>p. pe_employeeId p = ''emp_2'') (payrollEntries ex_full)
            = [ex_pay ''payroll_5_emp_2'' ''emp_2'']"
    by (rule conjunct2)
  show ?thesis
  proof (intro conjI exI [of _ state'])
    show "find (\<lambda>e. emp_id e = ''emp_1'') (employees ex_full) = Some ex_alice" by (rule h)
    show "handleDeleteEmployee ex_carol 500 ''emp_1'' ex_full = Inr state'" by (rule ok)
    show "\<forall>t \<in> set (timeLogs state'). tl_employeeId t \<noteq> ''emp_1''" by (rule a)
    show "\<forall>p \<in> set (payrollEntries state'). pe_employeeId p \<noteq> ''emp_1''" by (rule b)
    show "filter (\<lambda>t. tl_employeeId t = ''emp_2'') (timeLogs state')
            = [ex_log ''log_2'' ''emp_2'' ''2024-01-15'' (Some 1) 60,
               ex_log ''log_7'' ''emp_2'' ''2024-01-31'' (Some 1) 30]"
      using t2 v1 by (rule trans)
    show "filter (\<lambda>p. pe_employeeId p = ''emp_2'') (payrollEntries state')
            = [ex_pay ''payroll_5_emp_2'' ''emp_2'']"
      using p2 v2 by (rule trans)
  qed
qed

section \<open>Audit trail\<close>

text \<open>
  Claim C9. Every operation that succeeds appends exactly one audit entry in the same
  transition; the entry names the acting user's id and name, the time of the call and
  the id of the affected entity (the new or the addressed entry, task, request or
  employee; the employee's id for overtime settings; the month for a payroll run). An
  operation that fails appends nothing and leaves the state as it was. Over a session,
  the audit log grows at its end by as many entries as operations succeeded.
\<close>

theorem audit_one_per_operation:
  "(\<forall>state'. step employee now op state = Inr state' \<longrightarrow>
      (\<exists>a. auditLogs state' = auditLogs state @ [a]
           \<and> userId a = emp_id employee \<and> userName a = emp_name employee
           \<and> timestamp a = now
           \<and> entityId a = affectedEntity employee now op state))
   \<and> (isl (step employee now op state) \<longrightarrow> run (step employee now op) state = state)
   \<and> (\<exists>new. auditLogs (runAll calls state) = auditLogs state @ new
            \<and> length new = succeeded calls state)"
proof (intro conjI allI impI)
  fix state'
  assume "step employee now op state = Inr state'"
  from step_audited [OF this] obtain act etype
    where "auditLogs state' = auditLogs state @
             [audit employee now act etype (affectedEntity employee now op state)]"
    unfolding audited_def by blast
  then show "\<exists>a. auditLogs state' = auditLogs state @ [a]
           \<and> userId a = emp_id employee \<and> userName a = emp_name employee
           \<and> timestamp a = now
           \<and> entityId a = affectedEntity employee now op state"
    using audit_fields by blast
next
  assume "isl (step employee now op state)"
  then show "run (step employee now op) state = state" by (rule run_failed)
next
  show "\<exists>new. auditLogs (runAll calls state) = auditLogs state @ new
            \<and> length new = succeeded calls state"
    by (rule runAll_audit)
qed

theorem audit_one_per_operation_witness:
  "isl (step ex_alice 1500 (OpCheckOut ex_day) ex_empty)
   \<and> run (step ex_alice 1500 (OpCheckOut ex_day)) ex_empty = ex_empty
   \<and> \<not> isl (step ex_alice 1000 (OpCheckIn ex_day) ex_empty)
   \<and> map userId (auditLogs (run (step ex_alice 1000 (OpCheckIn ex_day)) ex_empty)) = [''emp_1'']
   \<and> map entityId (auditLogs (run (step ex_alice 1000 (OpCheckIn ex_day)) ex_empty))
       = [''log_1000'']
   \<and> succeeded ex_session ex_empty = 4
   \<and> length (auditLogs (runAll ex_session ex_empty)) = 4"
proof -
  have f: "isl (step ex_alice 1500 (OpCheckOut ex_day) ex_empty)"
    by (simp add: handleCheckOut_def todayTimeLog_def ex_defs)
  have ok: "\<not> isl (step ex_alice 1000 (OpCheckIn ex_day) ex_empty)"
    by (simp add: handleCheckIn_def todayTimeLog_def Let_def ex_defs)
  then obtain st where st: "step ex_alice 1000 (OpCheckIn ex_day) ex_empty = Inr st"
    by (cases "step ex_alice 1000 (OpCheckIn ex_day) ex_empty") simp_all
  then have r: "run (step ex_alice 1000 (OpCheckIn ex_day)) ex_empty = st"
    by (simp add: run_def)
  have e: "auditLogs ex_empty = [] \<and> emp_id ex_alice = ''emp_1''"
    by (simp add: ex_defs)
  have n: "succeeded ex_session ex_empty = 4"
    using ex_session_steps by (rule conjunct1)
  from audit_one_per_operation [of ex_alice 1500 "OpCheckOut ex_day" ex_empty ex_session] f
  have 1: "run (step ex_alice 1500 (OpCheckOut ex_day)) ex_empty = ex_empty"
    by blast
  from audit_one_per_operation [of ex_alice 1000 "OpCheckIn ex_day" ex_empty ex_session] st
  obtain a where a: "auditLogs st = auditLogs ex_empty @ [a]" "userId a = emp_id ex_alice"
    "entityId a = affectedEntity ex_alice 1000 (OpCheckIn ex_day) ex_empty"
    by blast
  from audit_one_per_operation [of ex_alice 1000 "OpCheckIn ex_day" ex_empty ex_session]
  obtain new where "auditLogs (runAll ex_session ex_empty) = auditLogs ex_empty @ new"
    "length new = succeeded ex_session ex_empty"
    by blast
  with n e have 2: "length (auditLogs (runAll ex_session ex_empty)) = 4"
    by simp
  from a e have 3: "map userId (auditLogs st) = [''emp_1'']
                    \<and> map entityId (auditLogs st) = [''log_1000'']"
    by (simp add: showInt_eval)
  from f 1 ok 3 n 2 show ?thesis unfolding r by simp
qed

section \<open>Check-out: what else changes\<close>

text \<open>
  Claim C10. A check-out changes check-out time, total hours and status of that day's
  entry only: breaks stay as they are, and so do the entries of other days and other
  employees. The code leaves all breaks alone and every entry with another id
  (\<open>checkOutUpdater_frame\<close>), but it finds the entry to change by \<open>log.id\<close>, and ids are
  made from the clock. Alice and Bob check in within the same millisecond and both get
  the id \<open>log_1000\<close>; when Alice checks out, Bob's entry is checked out with her.
\<close>

theorem checkOut_sharedId_evaluation:
  "map tl_employeeId (timeLogs ex_twoLogs) = [''emp_1'', ''emp_2'']
   \<and> map tl_id (timeLogs ex_twoLogs) = [''log_1000'', ''log_1000'']
   \<and> map checkOut (timeLogs ex_twoLogs) = [None, None]
   \<and> map tl_employeeId (timeLogs (run (handleCheckOut ex_alice ex_day 5000) ex_twoLogs))
       = [''emp_1'', ''emp_2'']
   \<and> map checkOut (timeLogs (run (handleCheckOut ex_alice ex_day 5000) ex_twoLogs))
       = [Some 5000, Some 5000]
   \<and> map tl_status (timeLogs (run (handleCheckOut ex_alice ex_day 5000) ex_twoLogs))
       = [CheckedOut, CheckedOut]"
  by (simp add: ex_twoLogs_def run_def handleCheckIn_def handleCheckOut_def handleAddTask_def
        checkOutUpdater_def todayTimeLog_def myTasks_def Let_def showInt_eval
        ex_empty_def ex_alice_def ex_bob_def ex_carol_def ex_day_def)

end
